theory Spec2Isabelle
  imports Complex_Main "HOL-Library.AList"
begin

section \<open>JavaScript values and objects\<close>

text \<open>
  The values that flow through the repositories, services and middleware: identifiers,
  e-mail addresses and status names are strings, flags are booleans, counters are
  numbers, timestamps are dates (milliseconds since the epoch). \<open>Undefined\<close> is what
  reading an absent property gives; \<open>NaN\<close> and \<open>Infinity\<close> are the two non-finite
  numbers that a division by zero can produce.
\<close>

datatype jsval =
    Undefined
  | Null
  | Bool bool
  | Num int
  | NaN
  | Infinity
  | Str string
  | Date int

text \<open>The truth value that \<^verbatim>\<open>!x\<close> and \<^verbatim>\<open>if (x)\<close> test.\<close>

fun truthy :: "jsval \<Rightarrow> bool" where
  "truthy Undefined = False"
| "truthy Null = False"
| "truthy (Bool b) = b"
| "truthy (Num n) = (n \<noteq> 0)"
| "truthy NaN = False"
| "truthy Infinity = True"
| "truthy (Str s) = (s \<noteq> [])"
| "truthy (Date t) = True"

text \<open>
  An object literal is a list of key/value pairs; a key is looked up from the left, and
  \<^verbatim>\<open>{ ...o, k: v }\<close> replaces the value of \<open>k\<close> in place when \<open>o\<close> has the key and
  appends it otherwise, which is what \<^const>\<open>AList.update\<close> does.
\<close>

type_synonym obj = "(string \<times> jsval) list"

definition field :: "obj \<Rightarrow> string \<Rightarrow> jsval" where
  "field ob k = (case map_of ob k of None \<Rightarrow> Undefined | Some v \<Rightarrow> v)"

definition spread :: "obj \<Rightarrow> obj \<Rightarrow> obj" where
  \<comment> \<open>\<^verbatim>\<open>{ ...a, ...b }\<close>: every key of \<open>b\<close>, in order, is assigned the value \<open>b\<close> has for it.\<close>
  "spread a b = fold (\<lambda>k ob. AList.update k (field b k) ob) (map fst b) a"

definition pick :: "string list \<Rightarrow> obj \<Rightarrow> obj" where
  \<comment> \<open>The projection of a row that a \<^verbatim>\<open>select\<close> of the listed columns returns.\<close>
  "pick ks ob = filter (\<lambda>(k, v). k \<in> set ks) ob"

section \<open>Errors\<close>

text \<open>
  The error classes of \<^verbatim>\<open>utils/errors.js\<close> with their message, the plain
  \<^verbatim>\<open>Error\<close> that the repositories and \<^verbatim>\<open>utils/jwt.js\<close> throw, the
  \<^verbatim>\<open>ReferenceError\<close> that evaluating an unbound identifier raises, the
  \<^verbatim>\<open>TypeError\<close> of calling a method a value does not have, and the errors of the
  two libraries: the token library and the store client.
\<close>

datatype error =
    ValidationError string
  | NotFoundError string
  | UnauthorizedError string
  | ForbiddenError string
  | ConflictError string
  | TenantNotFoundError string
  | Error string
  | ReferenceError string
  | TypeError string
  | JsonWebTokenError string
  | TokenExpiredError string
  | PrismaClientKnownRequestError string
  | PrismaClientValidationError string

fun statusCode :: "error \<Rightarrow> nat option" where
  \<comment> \<open>The \<^verbatim>\<open>statusCode\<close> field that the constructors of \<^verbatim>\<open>BaseError\<close>'s subclasses set.\<close>
  "statusCode (ValidationError m) = Some 400"
| "statusCode (NotFoundError m) = Some 404"
| "statusCode (UnauthorizedError m) = Some 401"
| "statusCode (ForbiddenError m) = Some 403"
| "statusCode (ConflictError m) = Some 409"
| "statusCode (TenantNotFoundError m) = Some 404"
| "statusCode e = None"

fun message :: "error \<Rightarrow> string" where
  "message (ValidationError m) = m"
| "message (NotFoundError m) = m"
| "message (UnauthorizedError m) = m"
| "message (ForbiddenError m) = m"
| "message (ConflictError m) = m"
| "message (TenantNotFoundError m) = m"
| "message (Error m) = m"
| "message (ReferenceError m) = m"
| "message (TypeError m) = m"
| "message (JsonWebTokenError m) = m"
| "message (TokenExpiredError m) = m"
| "message (PrismaClientKnownRequestError m) = m"
| "message (PrismaClientValidationError m) = m"

text \<open>
  \<^verbatim>\<open>e instanceof C\<close> for the classes the handlers test.
  \<^verbatim>\<open>TenantNotFoundError\<close> extends \<^verbatim>\<open>NotFoundError\<close>; in the token library
  \<^verbatim>\<open>TokenExpiredError\<close> extends \<^verbatim>\<open>JsonWebTokenError\<close>.
\<close>

fun isValidationError :: "error \<Rightarrow> bool" where
  "isValidationError (ValidationError m) = True"
| "isValidationError e = False"

fun isNotFoundError :: "error \<Rightarrow> bool" where
  "isNotFoundError (NotFoundError m) = True"
| "isNotFoundError (TenantNotFoundError m) = True"
| "isNotFoundError e = False"

fun isTenantNotFoundError :: "error \<Rightarrow> bool" where
  "isTenantNotFoundError (TenantNotFoundError m) = True"
| "isTenantNotFoundError e = False"

fun isUnauthorizedError :: "error \<Rightarrow> bool" where
  "isUnauthorizedError (UnauthorizedError m) = True"
| "isUnauthorizedError e = False"

fun isForbiddenError :: "error \<Rightarrow> bool" where
  "isForbiddenError (ForbiddenError m) = True"
| "isForbiddenError e = False"

fun isConflictError :: "error \<Rightarrow> bool" where
  "isConflictError (ConflictError m) = True"
| "isConflictError e = False"

fun isJsonWebTokenError :: "error \<Rightarrow> bool" where
  "isJsonWebTokenError (JsonWebTokenError m) = True"
| "isJsonWebTokenError (TokenExpiredError m) = True"
| "isJsonWebTokenError e = False"

fun isTokenExpiredError :: "error \<Rightarrow> bool" where
  "isTokenExpiredError (TokenExpiredError m) = True"
| "isTokenExpiredError e = False"

fun errorName :: "error \<Rightarrow> string" where
  \<comment> \<open>\<^verbatim>\<open>this.name = this.constructor.name\<close>, read by the authentication middleware.\<close>
  "errorName (UnauthorizedError m) = ''UnauthorizedError''"
| "errorName (ForbiddenError m) = ''ForbiddenError''"
| "errorName e = ''Error''"

section \<open>The store client\<close>

text \<open>
  A \<^verbatim>\<open>where\<close> clause maps column names to filters. A bare value is an equality
  filter; \<^verbatim>\<open>{ not: v }\<close>, \<^verbatim>\<open>{ in: [...] }\<close> and the comparisons are the filter
  objects the repositories build. The clause itself may be \<^verbatim>\<open>null\<close> or
  \<^verbatim>\<open>undefined\<close>, which is \<open>None\<close> here.
\<close>

datatype filter =
    Equals jsval
  | Not jsval
  | In "jsval list"
  | Lt jsval
  | Lte jsval
  | Gte jsval

type_synonym where_clause = "(string \<times> filter) list"

fun before :: "jsval \<Rightarrow> jsval \<Rightarrow> bool" where
  "before (Date a) (Date b) = (a < b)"
| "before (Num a) (Num b) = (a < b)"
| "before x y = False"

text \<open>
  What the store does with one filter on one column value. An \<^verbatim>\<open>undefined\<close> operand
  means that the filter is not there at all; a \<^verbatim>\<open>null\<close> column value passes no
  negation, membership or comparison, as in SQL.
\<close>

fun sat :: "filter \<Rightarrow> jsval \<Rightarrow> bool" where
  "sat (Equals v) x = (v = Undefined \<or> x = v)"
| "sat (Not v) x = (v = Undefined \<or> (x \<noteq> Null \<and> x \<noteq> v))"
| "sat (In vs) x = (x \<in> set vs)"
| "sat (Lt v) x = (v = Undefined \<or> before x v)"
| "sat (Lte v) x = (v = Undefined \<or> before x v \<or> (x \<noteq> Null \<and> x = v))"
| "sat (Gte v) x = (v = Undefined \<or> before v x \<or> (x \<noteq> Null \<and> x = v))"

definition matches :: "where_clause option \<Rightarrow> obj \<Rightarrow> bool" where
  "matches wh row =
     (case wh of
        None \<Rightarrow> True
      | Some w \<Rightarrow>
          list_all (\<lambda>k. case map_of w k of None \<Rightarrow> True | Some f \<Rightarrow> sat f (field row k))
            (map fst w))"

text \<open>
  The arguments of a query: the ordering by one column and the selection of columns
  (the tables carry no relations to include), the predicate, and the paging arguments.
  Columns are ordered by their numeric or date value.

  The \<^verbatim>\<open>options\<close> object of a repository call is spread into the arguments, so beside
  \<^verbatim>\<open>orderBy\<close> and \<^verbatim>\<open>select\<close> it may carry keys \<^verbatim>\<open>where\<close>, \<^verbatim>\<open>skip\<close> and \<^verbatim>\<open>take\<close> of
  its own. For each of these three, \<open>None\<close> says that the object has no such key and
  \<open>Some v\<close> that it has the key with the value \<open>v\<close> (which may itself be
  \<^verbatim>\<open>undefined\<close>, the inner \<open>None\<close>).
\<close>

datatype direction = Asc | Desc

record shape =
  orderBy :: "(string \<times> direction) option"
  select :: "string list option"

record options = shape +
  where_key :: "where_clause option option"
  skip_key :: "int option option"
  take_key :: "int option option"

definition no_options :: options where
  \<comment> \<open>The default \<^verbatim>\<open>options = {}\<close>.\<close>
  "no_options = \<lparr> orderBy = None, select = None,
                  where_key = None, skip_key = None, take_key = None \<rparr>"

record args = shape +
  whereClause :: "where_clause option"
  skip :: "int option"
  take_n :: "int option"

fun rank :: "jsval \<Rightarrow> int" where
  "rank (Date t) = t"
| "rank (Num n) = n"
| "rank v = 0"

definition ordered :: "(string \<times> direction) option \<Rightarrow> obj list \<Rightarrow> obj list" where
  "ordered ob xs =
     (case ob of
        None \<Rightarrow> xs
      | Some (k, Asc) \<Rightarrow> sort_key (\<lambda>r. rank (field r k)) xs
      | Some (k, Desc) \<Rightarrow> sort_key (\<lambda>r. - rank (field r k)) xs)"

definition selected :: "string list option \<Rightarrow> obj \<Rightarrow> obj" where
  "selected sel row = (case sel of None \<Rightarrow> row | Some ks \<Rightarrow> pick ks row)"

definition window :: "int option \<Rightarrow> int option \<Rightarrow> obj list \<Rightarrow> obj list" where
  \<comment> \<open>\<^verbatim>\<open>skip\<close> then \<^verbatim>\<open>take\<close>; a negative \<^verbatim>\<open>take\<close> counts from the end of the list.\<close>
  "window sk tk xs =
     (let s = (case sk of None \<Rightarrow> 0 | Some n \<Rightarrow> nat n) in
      case tk of
        None \<Rightarrow> drop s xs
      | Some n \<Rightarrow>
          if 0 \<le> n then take (nat n) (drop s xs)
          else rev (take (nat (- n)) (drop s (rev xs))))"

text \<open>
  A table of the store, as the repositories see it through \<^verbatim>\<open>this.model\<close> and
  \<^verbatim>\<open>this.modelName\<close>: its name, the names of its columns (\<^verbatim>\<open>model.fields\<close>), the
  column values the store itself gives a new row (the generated id, defaults,
  timestamps), and its rows.
\<close>

record model =
  modelName :: string
  model_fields :: "string list"
  generated :: "obj list \<Rightarrow> obj"
  rows :: "obj list"

text \<open>
  The store takes \<^verbatim>\<open>skip\<close> and \<^verbatim>\<open>take\<close> as signed 64-bit integers: \<^verbatim>\<open>findMany\<close>
  rejects a number that does not fit, and a negative \<^verbatim>\<open>skip\<close>.
\<close>

definition fits64 :: "int \<Rightarrow> bool" where
  "fits64 n = (- 9223372036854775808 \<le> n \<and> n \<le> 9223372036854775807)"

definition prisma_findMany :: "model \<Rightarrow> args \<Rightarrow> error + obj list" where
  "prisma_findMany m a =
     (if (case skip a of None \<Rightarrow> False | Some n \<Rightarrow> n < 0 \<or> \<not> fits64 n)
      then Inl (PrismaClientValidationError ''Invalid value for skip argument'')
      else if (case take_n a of None \<Rightarrow> False | Some n \<Rightarrow> \<not> fits64 n)
      then Inl (PrismaClientValidationError ''Invalid value for take argument'')
      else Inr (map (selected (select a))
                  (window (skip a) (take_n a)
                     (ordered (orderBy a) (filter (matches (whereClause a)) (rows m))))))"

definition prisma_findFirst :: "model \<Rightarrow> args \<Rightarrow> obj option" where
  \<comment> \<open>The first matching row in the requested order, or \<^verbatim>\<open>null\<close>. No caller in the
      repository gives \<^verbatim>\<open>findFirst\<close> paging arguments; they are not applied to it.\<close>
  "prisma_findFirst m a =
     (case ordered (orderBy a) (filter (matches (whereClause a)) (rows m)) of
        [] \<Rightarrow> None
      | r # rs \<Rightarrow> Some (selected (select a) r))"

definition prisma_count :: "model \<Rightarrow> where_clause option \<Rightarrow> nat" where
  "prisma_count m wh = length (filter (matches wh) (rows m))"

definition prisma_create :: "model \<Rightarrow> obj \<Rightarrow> model \<times> (error + obj)" where
  "prisma_create m data =
     (let row = spread (generated m (rows m)) data
      in (m\<lparr> rows := rows m @ [row] \<rparr>, Inr row))"

fun update_first :: "jsval \<Rightarrow> obj \<Rightarrow> obj list \<Rightarrow> obj list" where
  "update_first i data [] = []"
| "update_first i data (r # rs) =
     (if field r ''id'' = i then spread r data # rs else r # update_first i data rs)"

fun delete_first :: "jsval \<Rightarrow> obj list \<Rightarrow> obj list" where
  "delete_first i [] = []"
| "delete_first i (r # rs) = (if field r ''id'' = i then rs else r # delete_first i rs)"

text \<open>
  \<^verbatim>\<open>update\<close> and \<^verbatim>\<open>delete\<close> address one row by its unique id: an
  \<^verbatim>\<open>undefined\<close> id is rejected, an id that no row has is the known request error
  \<^verbatim>\<open>P2025\<close>.
\<close>

definition prisma_update :: "model \<Rightarrow> jsval \<Rightarrow> obj \<Rightarrow> model \<times> (error + obj)" where
  "prisma_update m i data =
     (if i = Undefined then (m, Inl (PrismaClientValidationError ''Argument where needs id''))
      else case find (\<lambda>r. field r ''id'' = i) (rows m) of
        None \<Rightarrow> (m, Inl (PrismaClientKnownRequestError ''P2025''))
      | Some r \<Rightarrow> (m\<lparr> rows := update_first i data (rows m) \<rparr>, Inr (spread r data)))"

definition prisma_delete :: "model \<Rightarrow> jsval \<Rightarrow> model \<times> (error + obj)" where
  "prisma_delete m i =
     (if i = Undefined then (m, Inl (PrismaClientValidationError ''Argument where needs id''))
      else case find (\<lambda>r. field r ''id'' = i) (rows m) of
        None \<Rightarrow> (m, Inl (PrismaClientKnownRequestError ''P2025''))
      | Some r \<Rightarrow> (m\<lparr> rows := delete_first i (rows m) \<rparr>, Inr r))"

section \<open>The base repository\<close>

definition addTenantFilter :: "where_clause option \<Rightarrow> jsval \<Rightarrow> where_clause option" where
  "addTenantFilter wh tenantId =
     (if \<not> truthy tenantId then wh
      else case wh of
        None \<Rightarrow> Some [(''tenantId'', Equals tenantId)]
      | Some w \<Rightarrow> Some (AList.update ''tenantId'' (Equals tenantId) w))"

definition query :: "where_clause option \<Rightarrow> int option \<Rightarrow> int option \<Rightarrow> options \<Rightarrow> args" where
  \<comment> \<open>The literal \<^verbatim>\<open>{ where, skip, take, ...options }\<close>: the options are spread last, so
      a key of theirs replaces the one written before it.\<close>
  "query wh sk tk opts =
     \<lparr> orderBy = orderBy opts, select = select opts,
       whereClause = (case where_key opts of None \<Rightarrow> wh | Some w \<Rightarrow> w),
       skip = (case skip_key opts of None \<Rightarrow> sk | Some n \<Rightarrow> n),
       take_n = (case take_key opts of None \<Rightarrow> tk | Some n \<Rightarrow> n) \<rparr>"

definition findById :: "model \<Rightarrow> jsval \<Rightarrow> jsval \<Rightarrow> options \<Rightarrow> obj option" where
  "findById m i tenantId opts =
     (let wh = addTenantFilter (Some [(''id'', Equals i)]) tenantId
      in prisma_findFirst m (query wh None None opts))"

definition findOne :: "model \<Rightarrow> where_clause option \<Rightarrow> jsval \<Rightarrow> options \<Rightarrow> obj option" where
  "findOne m wh tenantId opts =
     (let filteredWhere = addTenantFilter wh tenantId
      in prisma_findFirst m (query filteredWhere None None opts))"

definition findMany :: "model \<Rightarrow> where_clause option \<Rightarrow> jsval \<Rightarrow> options \<Rightarrow> error + obj list" where
  "findMany m wh tenantId opts =
     (let filteredWhere = addTenantFilter wh tenantId
      in prisma_findMany m (query filteredWhere None None opts))"

definition create :: "model \<Rightarrow> obj \<Rightarrow> jsval \<Rightarrow> model \<times> (error + obj)" where
  "create m data tenantId =
     (let finalData =
            (if truthy tenantId \<and> ''tenantId'' \<in> set (model_fields m)
             then AList.update ''tenantId'' tenantId data else data)
      in prisma_create m finalData)"

definition update :: "model \<Rightarrow> jsval \<Rightarrow> obj \<Rightarrow> jsval \<Rightarrow> model \<times> (error + obj)" where
  "update m i data tenantId =
     (let wh = addTenantFilter (Some [(''id'', Equals i)]) tenantId in
      case prisma_findFirst m (query wh None None no_options) of
        None \<Rightarrow> (m, Inl (Error (modelName m @ '' not found'')))
      | Some exists \<Rightarrow> prisma_update m i data)"

definition delete :: "model \<Rightarrow> jsval \<Rightarrow> jsval \<Rightarrow> model \<times> (error + obj)" where
  "delete m i tenantId =
     (let wh = addTenantFilter (Some [(''id'', Equals i)]) tenantId in
      case prisma_findFirst m (query wh None None no_options) of
        None \<Rightarrow> (m, Inl (Error (modelName m @ '' not found'')))
      | Some exists \<Rightarrow> prisma_delete m i)"

definition count :: "model \<Rightarrow> where_clause option \<Rightarrow> jsval \<Rightarrow> nat" where
  "count m wh tenantId =
     (let filteredWhere = addTenantFilter wh tenantId
      in prisma_count m filteredWhere)"

text \<open>
  Numbers are double-precision. An integer below \<open>2^53\<close> in absolute value is held
  exactly; a larger one keeps its 53 leading bits and is rounded to the nearest such
  number, to the even one of two equally near. \<open>lost_bits n\<close> is the number of low bits
  that \<open>n\<close> loses, and \<open>to_double\<close> is the rounding of an integer result, used on the
  difference and the product of the offset \<^verbatim>\<open>(page - 1) * pageSize\<close>.
\<close>

function lost_bits :: "nat \<Rightarrow> nat" where
  "lost_bits n = (if n < 9007199254740992 then 0 else Suc (lost_bits (n div 2)))"
  by pat_completeness auto
termination
  by (relation "measure (\<lambda>n. n)") auto

declare lost_bits.simps [simp del]

definition to_double :: "int \<Rightarrow> int" where
  "to_double x =
     (let n = nat \<bar>x\<bar>; e = lost_bits n; u = 2 ^ e; q = n div u; r = n mod u
      in if e = 0 then x
         else sgn x * int (if u < 2 * r \<or> (2 * r = u \<and> odd q) then (q + 1) * u else q * u))"

definition js_offset :: "int \<Rightarrow> int \<Rightarrow> int" where
  \<comment> \<open>\<^verbatim>\<open>(page - 1) * pageSize\<close>.\<close>
  "js_offset pg pgSize = to_double (to_double (pg - 1) * pgSize)"

text \<open>
  \<^verbatim>\<open>Math.ceil(total / pageSize)\<close>: a zero divisor gives \<^verbatim>\<open>NaN\<close> for \<open>0 / 0\<close> and
  \<^verbatim>\<open>Infinity\<close> otherwise (\<open>total\<close> is a count, never negative). For a total below
  \<open>2^53\<close> the rounding of the quotient never reaches the integer below it, so the
  ceiling is the mathematical one.
\<close>

definition ceil_div :: "nat \<Rightarrow> int \<Rightarrow> jsval" where
  "ceil_div n d =
     (if d = 0 then (if n = 0 then NaN else Infinity)
      else Num \<lceil>(of_nat n :: real) / of_int d\<rceil>)"

record pagination =
  totalCount :: nat
  page :: int
  pageSize :: int
  totalPages :: jsval

record paginated =
  data :: "obj list"
  pagination :: pagination

definition findPaginated ::
  "model \<Rightarrow> where_clause option \<Rightarrow> jsval \<Rightarrow> int \<Rightarrow> int \<Rightarrow> options \<Rightarrow> error + paginated" where
  "findPaginated m wh tenantId pg pgSize opts =
     (let filteredWhere = addTenantFilter wh tenantId;
          sk = js_offset pg pgSize
      in case prisma_findMany m (query filteredWhere (Some sk) (Some pgSize) opts) of
           Inl e \<Rightarrow> Inl e
         | Inr rs \<Rightarrow>
             let n = prisma_count m filteredWhere
             in Inr \<lparr> data = rs,
                      pagination = \<lparr> totalCount = n, page = pg, pageSize = pgSize,
                                     totalPages = ceil_div n pgSize \<rparr> \<rparr>)"

section \<open>Strings\<close>

fun split_on :: "char \<Rightarrow> string \<Rightarrow> string list" where
  \<comment> \<open>\<^verbatim>\<open>s.split(c)\<close> for a one-character separator: never an empty list.\<close>
  "split_on c [] = [[]]"
| "split_on c (x # xs) =
     (if x = c then [] # split_on c xs
      else case split_on c xs of
             [] \<Rightarrow> [[x]]
           | y # ys \<Rightarrow> (x # y) # ys)"

definition startsWith :: "string \<Rightarrow> string \<Rightarrow> bool" where
  "startsWith s p = (take (length p) s = p)"

fun includes_str :: "string \<Rightarrow> string \<Rightarrow> bool" where
  "includes_str [] sub = (sub = [])"
| "includes_str (c # cs) sub = (take (length sub) (c # cs) = sub \<or> includes_str cs sub)"

definition is_space :: "char \<Rightarrow> bool" where
  "is_space c = (c \<in> set [CHR '' '', CHR 0x09, CHR 0x0A, CHR 0x0B, CHR 0x0C, CHR 0x0D])"

definition trim :: "string \<Rightarrow> string" where
  "trim s = rev (dropWhile is_space (rev (dropWhile is_space s)))"

definition strict_equal :: "jsval \<Rightarrow> jsval \<Rightarrow> bool" where
  \<comment> \<open>\<^verbatim>\<open>a === b\<close>: \<^verbatim>\<open>NaN\<close> equals nothing, and two date objects are never the same object.\<close>
  "strict_equal a b =
     (case a of NaN \<Rightarrow> False | Date t \<Rightarrow> False | _ \<Rightarrow> a = b)"

section \<open>Requests and responses\<close>

text \<open>
  The part of a request that the middleware and the handlers read and write. The
  properties that the middleware attaches (\<^verbatim>\<open>tenant\<close>, \<^verbatim>\<open>tenantId\<close>,
  \<^verbatim>\<open>isMainDomain\<close>, \<^verbatim>\<open>user\<close>, \<^verbatim>\<open>userId\<close>) are \<^verbatim>\<open>undefined\<close> on a fresh request.
  A response is a status and a JSON body.
\<close>

record request =
  req_hostname :: string
  req_path :: string
  req_authorization :: "string option"
  req_params_token :: string
  req_body :: obj
  req_tenant :: "obj option"
  req_tenantId :: jsval
  req_isMainDomain :: jsval
  req_user :: "obj option"
  req_userId :: jsval

type_synonym response = "nat \<times> obj"

datatype outcome = Next | Responded response

record config =
  domain_main :: string
  nodeEnv :: string

section \<open>Tenant middleware\<close>

definition tenant_select :: "string list" where
  "tenant_select = [''id'', ''name'', ''subdomain'', ''primaryColor'', ''logoUrl'']"

definition quote :: string where
  "quote = [CHR 0x27]"

definition resolveTenant :: "config \<Rightarrow> model \<Rightarrow> request \<Rightarrow> error + request" where
  \<comment> \<open>The \<^verbatim>\<open>try\<close> block of \<^verbatim>\<open>tenantMiddleware\<close>; \<open>Inr\<close> is the request handed to \<^verbatim>\<open>next()\<close>.\<close>
  "resolveTenant cfg tenants req =
     (if req_hostname req = domain_main cfg \<or> includes_str (req_hostname req) ''localhost'' then
        (if nodeEnv cfg = ''development'' then
           (case prisma_findFirst tenants
                   \<lparr> orderBy = Some (''createdAt'', Asc), select = Some tenant_select,
                     whereClause = Some [(''isActive'', Equals (Bool True))],
                     skip = None, take_n = None \<rparr> of
              Some defaultTenant \<Rightarrow>
                Inr (req\<lparr> req_tenant := Some defaultTenant,
                          req_tenantId := field defaultTenant ''id'',
                          req_isMainDomain := Bool True \<rparr>)
            | None \<Rightarrow> Inr (req\<lparr> req_isMainDomain := Bool True \<rparr>))
         else Inr (req\<lparr> req_isMainDomain := Bool True \<rparr>))
      else
        (case split_on CHR ''.'' (req_hostname req) of
           [] \<Rightarrow> Inl (TypeError ''split'')
         | subdomain # rest \<Rightarrow>
             (case prisma_findFirst tenants
                     \<lparr> orderBy = None, select = Some tenant_select,
                       whereClause = Some [(''subdomain'', Equals (Str subdomain)),
                                           (''isActive'', Equals (Bool True))],
                       skip = None, take_n = None \<rparr> of
                None \<Rightarrow>
                  Inl (TenantNotFoundError
                         (''Tenant with subdomain '' @ quote @ subdomain @ quote @ '' not found''))
              | Some tn \<Rightarrow>
                  Inr (req\<lparr> req_tenant := Some tn,
                            req_tenantId := field tn ''id'',
                            req_isMainDomain := Bool False \<rparr>))))"

definition tenantMiddleware :: "config \<Rightarrow> model \<Rightarrow> request \<Rightarrow> request \<times> outcome" where
  "tenantMiddleware cfg tenants req =
     (case resolveTenant cfg tenants req of
        Inr req' \<Rightarrow> (req', Next)
      | Inl e \<Rightarrow>
          if isTenantNotFoundError e
          then (req, Responded (404, [(''error'', Str ''Tenant not found''),
                                      (''message'', Str (message e))]))
          else (req, Responded (500, [(''error'', Str ''Internal server error''),
                                      (''message'', Str ''Unable to identify tenant'')])))"

section \<open>Authentication middleware\<close>

definition user_select :: "string list" where
  "user_select = [''id'', ''email'', ''name'', ''role'', ''tenantId'']"

text \<open>
  \<open>jwt_verify\<close> is \<^verbatim>\<open>jwt.verify(token, config.jwt.secret)\<close> of the token library: the
  decoded payload, or the library's error.
\<close>

definition authenticate :: "(string \<Rightarrow> error + obj) \<Rightarrow> model \<Rightarrow> request \<Rightarrow> error + request" where
  \<comment> \<open>The \<^verbatim>\<open>try\<close> block of \<^verbatim>\<open>authMiddleware\<close>.\<close>
  "authenticate jwt_verify users req =
     (case req_authorization req of
        None \<Rightarrow> Inl (UnauthorizedError ''No token provided'')
      | Some authHeader \<Rightarrow>
          if authHeader = [] \<or> \<not> startsWith authHeader ''Bearer ''
          then Inl (UnauthorizedError ''No token provided'')
          else
            (case (case split_on CHR '' '' authHeader of
                     a # token # rest \<Rightarrow> jwt_verify token
                   | _ \<Rightarrow> Inl (JsonWebTokenError ''jwt must be provided'')) of
               Inl e \<Rightarrow> Inl e
             | Inr decoded \<Rightarrow>
                 (case prisma_findFirst users
                         \<lparr> orderBy = None, select = Some user_select,
                           whereClause = Some [(''id'', Equals (field decoded ''userId'')),
                                               (''isActive'', Equals (Bool True))],
                           skip = None, take_n = None \<rparr> of
                    None \<Rightarrow> Inl (UnauthorizedError ''User not found or inactive'')
                  | Some usr \<Rightarrow>
                      if \<not> truthy (req_isMainDomain req)
                         \<and> \<not> strict_equal (field usr ''tenantId'') (req_tenantId req)
                      then Inl (ForbiddenError ''User does not belong to this tenant'')
                      else Inr (req\<lparr> req_user := Some usr, req_userId := field usr ''id'' \<rparr>))))"

definition authMiddleware :: "(string \<Rightarrow> error + obj) \<Rightarrow> model \<Rightarrow> request \<Rightarrow> request \<times> outcome" where
  "authMiddleware jwt_verify users req =
     (case authenticate jwt_verify users req of
        Inr req' \<Rightarrow> (req', Next)
      | Inl e \<Rightarrow>
          if isJsonWebTokenError e
          then (req, Responded (401, [(''error'', Str ''Invalid token''),
                                      (''message'', Str ''The provided token is invalid'')]))
          else if isTokenExpiredError e
          then (req, Responded (401, [(''error'', Str ''Token expired''),
                                      (''message'', Str ''The provided token has expired'')]))
          else if isUnauthorizedError e \<or> isForbiddenError e
          then (req, Responded (if isUnauthorizedError e then 401 else 403,
                                [(''error'', Str (errorName e)), (''message'', Str (message e))]))
          else (req, Responded (500, [(''error'', Str ''Internal server error''),
                                      (''message'', Str ''Authentication failed'')])))"

section \<open>Todo repository, service and controller\<close>

definition updateStatus :: "model \<Rightarrow> jsval \<Rightarrow> jsval \<Rightarrow> jsval \<Rightarrow> model \<times> (error + obj)" where
  "updateStatus todos todoId st tenantId = update todos todoId [(''status'', st)] tenantId"

definition entries :: "where_clause option \<Rightarrow> where_clause" where
  \<comment> \<open>What \<^verbatim>\<open>...where\<close> spreads into a literal: nothing for \<^verbatim>\<open>null\<close>.\<close>
  "entries wh = (case wh of None \<Rightarrow> [] | Some w \<Rightarrow> w)"

record statistics =
  total_todos :: nat
  completed :: nat
  inProgress :: nat
  pending :: nat
  overdue :: nat
  highPriority :: nat
  completionRate :: real

text \<open>
  \<open>now\<close> is the \<^verbatim>\<open>new Date()\<close> of the overdue count. The six counts are taken on one
  state of the table. The completion rate is the exact quotient; the source computes it
  in double precision.
\<close>

definition getStatistics :: "int \<Rightarrow> model \<Rightarrow> jsval \<Rightarrow> jsval \<Rightarrow> statistics" where
  "getStatistics now todos uid tenantId =
     (let wh = addTenantFilter (Some [(''userId'', Equals uid)]) tenantId;
          n = count todos wh tenantId;
          c = count todos
                (Some (AList.update ''status'' (Equals (Str ''COMPLETED'')) (entries wh))) tenantId;
          p = count todos
                (Some (AList.update ''status'' (Equals (Str ''IN_PROGRESS'')) (entries wh))) tenantId;
          q = count todos
                (Some (AList.update ''status'' (Equals (Str ''PENDING'')) (entries wh))) tenantId;
          od = count todos
                (Some (AList.update ''status'' (Not (Str ''COMPLETED''))
                        (AList.update ''dueDate'' (Lt (Date now)) (entries wh)))) tenantId;
          hp = count todos
                (Some (AList.update ''status'' (Not (Str ''COMPLETED''))
                        (AList.update ''priority'' (In [Str ''HIGH'', Str ''URGENT''])
                           (entries wh)))) tenantId
      in \<lparr> total_todos = n, completed = c, inProgress = p, pending = q, overdue = od,
           highPriority = hp,
           completionRate = (if n > 0 then (of_nat c / of_nat n) * 100 else 0) \<rparr>)"

text \<open>
  \<^verbatim>\<open>services/todoService.js\<close> takes \<^verbatim>\<open>ValidationError\<close> and \<^verbatim>\<open>NotFoundError\<close>
  from \<^verbatim>\<open>utils/errors\<close> and nothing else: the name \<^verbatim>\<open>ForbiddenError\<close> is bound
  nowhere in the module, and evaluating \<^verbatim>\<open>new ForbiddenError(...)\<close> raises the
  \<^verbatim>\<open>ReferenceError\<close> of an undefined name.
\<close>

definition getTodoById :: "model \<Rightarrow> jsval \<Rightarrow> jsval \<Rightarrow> jsval \<Rightarrow> error + obj" where
  "getTodoById todos todoId uid tenantId =
     (case findById todos todoId tenantId no_options of
        None \<Rightarrow> Inl (NotFoundError ''Todo not found'')
      | Some todo \<Rightarrow>
          if \<not> strict_equal (field todo ''userId'') uid
          then Inl (ReferenceError ''ForbiddenError is not defined'')
          else Inr todo)"

text \<open>\<open>toDate\<close> is \<^verbatim>\<open>new Date(x)\<close> on the due date of the request body.\<close>

definition updateTodo ::
  "(jsval \<Rightarrow> jsval) \<Rightarrow> model \<Rightarrow> jsval \<Rightarrow> obj \<Rightarrow> jsval \<Rightarrow> jsval \<Rightarrow> model \<times> (error + obj)" where
  "updateTodo toDate todos todoId updateData uid tenantId =
     (case getTodoById todos todoId uid tenantId of
        Inl e \<Rightarrow> (todos, Inl e)
      | Inr todo \<Rightarrow>
          (case (case field updateData ''title'' of
                   Undefined \<Rightarrow> Inr ()
                 | Str t \<Rightarrow> if t = [] \<or> length (trim t) = 0
                            then Inl (ValidationError ''Title cannot be empty'') else Inr ()
                 | v \<Rightarrow> if \<not> truthy v then Inl (ValidationError ''Title cannot be empty'')
                        else Inl (TypeError ''updateData.title.trim is not a function'')) of
             Inl e \<Rightarrow> (todos, Inl e)
           | Inr u \<Rightarrow>
               let updateData' =
                     (if truthy (field updateData ''dueDate'')
                      then AList.update ''dueDate'' (toDate (field updateData ''dueDate'')) updateData
                      else updateData)
               in update todos todoId updateData' tenantId))"

definition deleteTodo :: "model \<Rightarrow> jsval \<Rightarrow> jsval \<Rightarrow> jsval \<Rightarrow> model \<times> (error + obj)" where
  "deleteTodo todos todoId uid tenantId =
     (case getTodoById todos todoId uid tenantId of
        Inl e \<Rightarrow> (todos, Inl e)
      | Inr todo \<Rightarrow> delete todos todoId tenantId)"

definition todo_handleError :: "error \<Rightarrow> response" where
  \<comment> \<open>\<^verbatim>\<open>TodoController.handleError\<close>.\<close>
  "todo_handleError e =
     (if isValidationError e
      then (400, [(''error'', Str ''Validation Error''), (''message'', Str (message e))])
      else if isNotFoundError e
      then (404, [(''error'', Str ''Not Found''), (''message'', Str (message e))])
      else if isForbiddenError e
      then (403, [(''error'', Str ''Forbidden''), (''message'', Str (message e))])
      else (500, [(''error'', Str ''Internal Server Error''),
                  (''message'', Str ''An unexpected error occurred'')]))"

section \<open>User repository, authentication service and controller\<close>

definition findByEmail :: "model \<Rightarrow> jsval \<Rightarrow> jsval \<Rightarrow> obj option" where
  "findByEmail users email tenantId = findOne users (Some [(''email'', Equals email)]) tenantId no_options"

definition updatePassword :: "model \<Rightarrow> jsval \<Rightarrow> jsval \<Rightarrow> model \<times> (error + obj)" where
  "updatePassword users uid hashedPassword = prisma_update users uid [(''password'', hashedPassword)]"

text \<open>
  The two primitives of the libraries: \<open>hash\<close> is the digest that \<^verbatim>\<open>bcrypt.hash\<close>
  gives a string (it rejects anything else), \<open>sign\<close> is \<^verbatim>\<open>jwt.sign\<close> with the
  configured secret, on a payload and an expiry.
\<close>

definition bcrypt_hash :: "(string \<Rightarrow> string) \<Rightarrow> jsval \<Rightarrow> error + jsval" where
  "bcrypt_hash hash v =
     (case v of Str p \<Rightarrow> Inr (Str (hash p)) | _ \<Rightarrow> Inl (Error ''Illegal arguments''))"

definition verifyToken :: "(string \<Rightarrow> error + obj) \<Rightarrow> string \<Rightarrow> error + obj" where
  "verifyToken jwt_verify token =
     (case jwt_verify token of
        Inr decoded \<Rightarrow> Inr decoded
      | Inl e \<Rightarrow>
          if isTokenExpiredError e then Inl (Error ''Token expired'')
          else if isJsonWebTokenError e then Inl (Error ''Invalid token'')
          else Inl e)"

definition registerUser ::
  "(string \<Rightarrow> string) \<Rightarrow> (obj \<Rightarrow> string) \<Rightarrow> model \<Rightarrow> obj \<Rightarrow> jsval
     \<Rightarrow> model \<times> (error + obj \<times> string)" where
  "registerUser hash sign users userData tenantId =
     (case findByEmail users (field userData ''email'') tenantId of
        Some existingUser \<Rightarrow>
          (users, Inl (ConflictError ''Email already registered in this organization''))
      | None \<Rightarrow>
          (case bcrypt_hash hash (field userData ''password'') of
             Inl e \<Rightarrow> (users, Inl e)
           | Inr hashedPassword \<Rightarrow>
               (case create users
                       (AList.update ''role'' (Str ''USER'')
                          (AList.update ''password'' hashedPassword userData)) tenantId of
                  (users', Inl e) \<Rightarrow> (users', Inl e)
                | (users', Inr usr) \<Rightarrow>
                    (users', Inr (usr, sign [(''userId'', field usr ''id''),
                                            (''tenantId'', field usr ''tenantId''),
                                            (''role'', field usr ''role'')])))))"

definition resetPassword ::
  "(string \<Rightarrow> error + obj) \<Rightarrow> (string \<Rightarrow> string) \<Rightarrow> model \<Rightarrow> string \<Rightarrow> jsval
     \<Rightarrow> model \<times> (error + bool)" where
  "resetPassword jwt_verify hash users resetToken newPassword =
     (case (case verifyToken jwt_verify resetToken of
              Inl e \<Rightarrow> (users, Inl e)
            | Inr decoded \<Rightarrow>
                if \<not> strict_equal (field decoded ''purpose'') (Str ''password-reset'')
                then (users, Inl (ValidationError ''Invalid reset token''))
                else
                  (case bcrypt_hash hash newPassword of
                     Inl e \<Rightarrow> (users, Inl e)
                   | Inr hashedPassword \<Rightarrow>
                       (case updatePassword users (field decoded ''userId'') hashedPassword of
                          (users', Inl e) \<Rightarrow> (users', Inl e)
                        | (users', Inr usr) \<Rightarrow> (users', Inr True)))) of
        (users', Inl error) \<Rightarrow> (users', Inl (ValidationError ''Invalid or expired reset token''))
      | (users', Inr ok) \<Rightarrow> (users', Inr ok))"

definition auth_handleError :: "error \<Rightarrow> response" where
  \<comment> \<open>\<^verbatim>\<open>AuthController.handleError\<close>.\<close>
  "auth_handleError e =
     (if isValidationError e
      then (400, [(''error'', Str ''Validation Error''), (''message'', Str (message e))])
      else if isUnauthorizedError e
      then (401, [(''error'', Str ''Unauthorized''), (''message'', Str (message e))])
      else if isConflictError e
      then (409, [(''error'', Str ''Conflict''), (''message'', Str (message e))])
      else (500, [(''error'', Str ''Internal Server Error''),
                  (''message'', Str ''An unexpected error occurred'')]))"

definition resetPassword_handler ::
  "(string \<Rightarrow> error + obj) \<Rightarrow> (string \<Rightarrow> string) \<Rightarrow> model \<Rightarrow> request \<Rightarrow> model \<times> response" where
  \<comment> \<open>\<^verbatim>\<open>AuthController.resetPassword\<close>.\<close>
  "resetPassword_handler jwt_verify hash users req =
     (if \<not> truthy (field (req_body req) ''password'')
      then (users, auth_handleError (ValidationError ''New password is required''))
      else case resetPassword jwt_verify hash users (req_params_token req)
                  (field (req_body req) ''password'') of
             (users', Inl e) \<Rightarrow> (users', auth_handleError e)
           | (users', Inr ok) \<Rightarrow> (users', (200, [(''message'', Str ''Password reset successful'')])))"

section \<open>A small installation\<close>

text \<open>
  Two active tenants \<open>acme\<close> (id \<open>A\<close>) and \<open>other\<close> (id \<open>B\<close>) and a deactivated one, three
  users and four todos, with the primitives of the libraries fixed to simple functions.
\<close>

definition ex_tenants :: model where
  "ex_tenants =
     \<lparr> modelName = ''tenant'',
       model_fields = [''id'', ''name'', ''subdomain'', ''isActive''],
       generated = (\<lambda>rs. [(''id'', Str ''T''), (''isActive'', Bool True)]),
       rows = [ [(''id'', Str ''A''), (''name'', Str ''Acme''), (''subdomain'', Str ''acme''),
                 (''isActive'', Bool True)],
                [(''id'', Str ''B''), (''name'', Str ''Other''), (''subdomain'', Str ''other''),
                 (''isActive'', Bool True)],
                [(''id'', Str ''C''), (''name'', Str ''Old''), (''subdomain'', Str ''old''),
                 (''isActive'', Bool False)] ] \<rparr>"

definition ex_users :: model where
  "ex_users =
     \<lparr> modelName = ''user'',
       model_fields = [''id'', ''email'', ''password'', ''name'', ''role'', ''tenantId'', ''isActive''],
       generated = (\<lambda>rs. [(''id'', Str ''u-new''), (''isActive'', Bool True)]),
       rows = [ [(''id'', Str ''u1''), (''email'', Str ''a@x.com''), (''password'', Str ''h1''),
                 (''role'', Str ''USER''), (''tenantId'', Str ''A''), (''isActive'', Bool True)],
                [(''id'', Str ''u2''), (''email'', Str ''b@x.com''), (''password'', Str ''h2''),
                 (''role'', Str ''USER''), (''tenantId'', Str ''A''), (''isActive'', Bool True)],
                [(''id'', Str ''u9''), (''email'', Str ''a@x.com''), (''password'', Str ''h9''),
                 (''role'', Str ''USER''), (''tenantId'', Str ''B''), (''isActive'', Bool True)] ] \<rparr>"

definition ex_todos :: model where
  "ex_todos =
     \<lparr> modelName = ''todo'',
       model_fields = [''id'', ''title'', ''status'', ''userId'', ''tenantId''],
       generated = (\<lambda>rs. [(''id'', Str ''t-new'')]),
       rows = [ [(''id'', Str ''t1''), (''status'', Str ''PENDING''), (''userId'', Str ''u1''),
                 (''tenantId'', Str ''A'')],
                [(''id'', Str ''t2''), (''status'', Str ''COMPLETED''), (''userId'', Str ''u1''),
                 (''tenantId'', Str ''A'')],
                [(''id'', Str ''t3''), (''status'', Str ''PENDING''), (''userId'', Str ''u2''),
                 (''tenantId'', Str ''A'')],
                [(''id'', Str ''t4''), (''status'', Str ''IN_PROGRESS''), (''userId'', Str ''u9''),
                 (''tenantId'', Str ''B'')] ] \<rparr>"

definition ex_verify :: "string \<Rightarrow> error + obj" where
  "ex_verify tok =
     (if tok = ''access-u1''
      then Inr [(''userId'', Str ''u1''), (''tenantId'', Str ''A''), (''role'', Str ''USER'')]
      else if tok = ''reset-u1''
      then Inr [(''userId'', Str ''u1''), (''purpose'', Str ''password-reset'')]
      else Inl (JsonWebTokenError ''invalid signature''))"

definition ex_hash :: "string \<Rightarrow> string" where
  "ex_hash p = ''#'' @ p"

definition ex_sign :: "obj \<Rightarrow> string" where
  "ex_sign payload = ''jwt''"

definition ex_config :: config where
  "ex_config = \<lparr> domain_main = ''todolist.com'', nodeEnv = ''production'' \<rparr>"

definition ex_request :: request where
  "ex_request =
     \<lparr> req_hostname = ''acme.todolist.com'', req_path = ''/api/todos'',
       req_authorization = Some ''Bearer access-u1'', req_params_token = ''reset-u1'',
       req_body = [(''password'', Str ''Secret1!'')],
       req_tenant = None, req_tenantId = Undefined, req_isMainDomain = Undefined,
       req_user = None, req_userId = Undefined \<rparr>"

definition ex_userData :: obj where
  "ex_userData = [(''email'', Str ''c@x.com''), (''password'', Str ''Secret1!''),
                  (''name'', Str ''C'')]"

section \<open>The row of a registration\<close>

text \<open>
  The row that \<open>registerUser\<close> makes for a password \<open>pw\<close>: the user data with the digest
  and the role \<open>USER\<close> set, stamped with the tenant id by \<open>create\<close>, on top of what the
  store generates.
\<close>

definition new_user :: "(string \<Rightarrow> string) \<Rightarrow> model \<Rightarrow> obj \<Rightarrow> string \<Rightarrow> jsval \<Rightarrow> obj" where
  "new_user hash m userData pw t =
     spread (generated m (rows m))
       (AList.update ''tenantId'' t
          (AList.update ''role'' (Str ''USER'')
             (AList.update ''password'' (Str (hash pw)) userData)))"

section \<open>Facts about predicates and the tenant filter\<close>

lemma matches_Some_iff:
  "matches (Some w) row \<longleftrightarrow> (\<forall>k f. map_of w k = Some f \<longrightarrow> sat f (field row k))"
proof
  assume m: "matches (Some w) row"
  show "\<forall>k f. map_of w k = Some f \<longrightarrow> sat f (field row k)"
  proof (intro allI impI)
    fix k f assume kf: "map_of w k = Some f"
    then have "k \<in> set (map fst w)"
      by (metis map_of_SomeD fst_conv image_eqI set_map)
    with m have "case map_of w k of None \<Rightarrow> True | Some f \<Rightarrow> sat f (field row k)"
      by (auto simp: matches_def list_all_iff)
    with kf show "sat f (field row k)" by simp
  qed
next
  assume "\<forall>k f. map_of w k = Some f \<longrightarrow> sat f (field row k)"
  then show "matches (Some w) row"
    by (simp add: matches_def list_all_iff split: option.splits)
qed

lemma addTenantFilter_truthy:
  "truthy t \<Longrightarrow> addTenantFilter (Some w) t = Some (AList.update ''tenantId'' (Equals t) w)"
  "truthy t \<Longrightarrow> addTenantFilter None t = Some [(''tenantId'', Equals t)]"
  by (simp_all add: addTenantFilter_def)

lemma addTenantFilter_falsy: "\<not> truthy t \<Longrightarrow> addTenantFilter wh t = wh"
  by (simp add: addTenantFilter_def)

lemma truthy_defined: "truthy t \<Longrightarrow> t \<noteq> Undefined"
  by auto

lemma matches_tenant:
  assumes "truthy t" and "matches (addTenantFilter wh t) row"
  shows "field row ''tenantId'' = t"
proof (cases wh)
  case None
  with assms show ?thesis
    by (auto simp: addTenantFilter_def matches_def)
next
  case (Some w)
  with assms have "matches (Some (AList.update ''tenantId'' (Equals t) w)) row"
    by (simp add: addTenantFilter_def)
  moreover have "map_of (AList.update ''tenantId'' (Equals t) w) ''tenantId'' = Some (Equals t)"
    by (simp add: update_conv')
  ultimately have "sat (Equals t) (field row ''tenantId'')"
    unfolding matches_Some_iff by blast
  with assms(1) show ?thesis by auto
qed

lemma matches_caller:
  assumes "matches (addTenantFilter (Some w) t) row" "k \<noteq> ''tenantId''" "map_of w k = Some f"
  shows "sat f (field row k)"
  using assms
  by (cases "truthy t") (auto simp: addTenantFilter_def matches_Some_iff update_conv')


lemmas ex_defs = ex_todos_def ex_users_def ex_tenants_def
lemmas repo_defs = findById_def findOne_def findMany_def count_def findPaginated_def
  addTenantFilter_def prisma_findFirst_def prisma_findMany_def prisma_count_def query_def
  no_options_def matches_def field_def ordered_def selected_def window_def

section \<open>Tenant scoping of the read operations\<close>

text \<open>
  Claim C2, as the code has it. The guard of \<^verbatim>\<open>addTenantFilter\<close> is \<^verbatim>\<open>!tenantId\<close>, so
  the tenant constraint is added for every truthy tenant id (a non-empty string), not for
  every non-null one; and the options are spread after the predicate, so the predicate
  reaches the store when the options carry no \<^verbatim>\<open>where\<close> key of their own. For such
  options the arguments built from a predicate carry that predicate, and for every
  truthy tenant id each of \<open>findById\<close>, \<open>findOne\<close>, \<open>findMany\<close>, \<open>count\<close> and
  \<open>findPaginated\<close> calls the store with the caller's predicate in which the entry
  \<open>tenantId = t\<close> is set (for \<open>findById\<close> the caller's predicate is \<open>id = i\<close>, and a
  \<^verbatim>\<open>null\<close> predicate counts as the empty one). With \<^verbatim>\<open>null\<close> for the tenant id (the
  tenant table), the store is called with the caller's predicate as it is.
\<close>

theorem tenant_filter_passed_to_store:
  assumes "where_key opts = None"
  shows "whereClause (query p sk tk opts) = p
   \<and> (truthy t \<longrightarrow>
       findById m i t opts
         = prisma_findFirst m
             (query (Some [(''id'', Equals i), (''tenantId'', Equals t)]) None None opts)
     \<and> findOne m wh t opts
         = prisma_findFirst m
             (query (Some (AList.update ''tenantId'' (Equals t) (entries wh))) None None opts)
     \<and> findMany m wh t opts
         = prisma_findMany m
             (query (Some (AList.update ''tenantId'' (Equals t) (entries wh))) None None opts)
     \<and> count m wh t
         = prisma_count m (Some (AList.update ''tenantId'' (Equals t) (entries wh)))
     \<and> findPaginated m wh t pg ps opts
         = (case prisma_findMany m
                   (query (Some (AList.update ''tenantId'' (Equals t) (entries wh)))
                      (Some (js_offset pg ps)) (Some ps) opts) of
              Inl e \<Rightarrow> Inl e
            | Inr rs \<Rightarrow>
                Inr \<lparr> data = rs,
                       pagination =
                         \<lparr> totalCount = prisma_count m
                              (Some (AList.update ''tenantId'' (Equals t) (entries wh))),
                           page = pg, pageSize = ps,
                           totalPages = ceil_div (prisma_count m
                              (Some (AList.update ''tenantId'' (Equals t) (entries wh)))) ps \<rparr> \<rparr>))
   \<and> findById m i Null opts = prisma_findFirst m (query (Some [(''id'', Equals i)]) None None opts)
   \<and> findOne m wh Null opts = prisma_findFirst m (query wh None None opts)
   \<and> findMany m wh Null opts = prisma_findMany m (query wh None None opts)
   \<and> count m wh Null = prisma_count m wh
   \<and> findPaginated m wh Null pg ps opts
       = (case prisma_findMany m (query wh (Some (js_offset pg ps)) (Some ps) opts) of
            Inl e \<Rightarrow> Inl e
          | Inr rs \<Rightarrow>
              Inr \<lparr> data = rs,
                     pagination = \<lparr> totalCount = prisma_count m wh, page = pg, pageSize = ps,
                                    totalPages = ceil_div (prisma_count m wh) ps \<rparr> \<rparr>)"
proof -
  have q: "whereClause (query p sk tk opts) = p"
    using assms by (simp add: query_def)
  have a: "truthy t \<Longrightarrow>
      addTenantFilter wh t = Some (AList.update ''tenantId'' (Equals t) (entries wh))"
    by (cases wh) (simp_all add: addTenantFilter_def entries_def)
  have b: "truthy t \<Longrightarrow>
      addTenantFilter (Some [(''id'', Equals i)]) t
        = Some [(''id'', Equals i), (''tenantId'', Equals t)]"
    by (simp add: addTenantFilter_def)
  have n: "addTenantFilter x Null = x" for x
    by (simp add: addTenantFilter_def)
  show ?thesis
    by (simp add: q a b n findById_def findOne_def findMany_def count_def findPaginated_def
        Let_def split: sum.splits)
qed

theorem tenant_filter_passed_to_store_witness:
  "where_key no_options = None
   \<and> truthy (Str ''A'')
   \<and> findMany ex_todos (Some [(''userId'', Equals (Str ''u1''))]) (Str ''A'') no_options
       = prisma_findMany ex_todos
           (query (Some [(''userId'', Equals (Str ''u1'')), (''tenantId'', Equals (Str ''A''))])
              None None no_options)
   \<and> findMany ex_todos (Some [(''userId'', Equals (Str ''u1''))]) (Str ''A'') no_options
       = Inr [ [(''id'', Str ''t1''), (''status'', Str ''PENDING''), (''userId'', Str ''u1''),
                (''tenantId'', Str ''A'')],
               [(''id'', Str ''t2''), (''status'', Str ''COMPLETED''), (''userId'', Str ''u1''),
                (''tenantId'', Str ''A'')] ]
   \<and> count ex_todos None (Str ''A'') = 3
   \<and> count ex_todos None Null = 4"
proof -
  have h: "where_key no_options = None"
    by (simp add: no_options_def)
  have e: "prisma_findMany ex_todos
           (query (Some [(''userId'', Equals (Str ''u1'')), (''tenantId'', Equals (Str ''A''))])
              None None no_options)
       = Inr [ [(''id'', Str ''t1''), (''status'', Str ''PENDING''), (''userId'', Str ''u1''),
                (''tenantId'', Str ''A'')],
               [(''id'', Str ''t2''), (''status'', Str ''COMPLETED''), (''userId'', Str ''u1''),
                (''tenantId'', Str ''A'')] ]"
    by (simp add: ex_defs repo_defs)
  have c: "prisma_count ex_todos (Some [(''tenantId'', Equals (Str ''A''))]) = 3"
    "prisma_count ex_todos None = 4"
    by (simp_all add: ex_defs repo_defs)
  from tenant_filter_passed_to_store
         [OF h, where t = "Str ''A''" and m = ex_todos
            and wh = "Some [(''userId'', Equals (Str ''u1''))]"]
       tenant_filter_passed_to_store [OF h, where t = "Str ''A''" and m = ex_todos and wh = None]
  show ?thesis
    by (simp add: h e c entries_def)
qed

text \<open>
  The empty string is a tenant id that is not \<^verbatim>\<open>null\<close> and for which nothing is added:
  the count runs over the rows of every tenant, where the augmented predicate would
  select none. And options with a \<^verbatim>\<open>where\<close> key replace the filtered predicate: a
  call for tenant \<open>A\<close> returns the todo of user \<open>u9\<close>, who belongs to tenant \<open>B\<close>.
\<close>

theorem tenant_filter_empty_id_counterexample:
  "Str [] \<noteq> Null
   \<and> count ex_todos (Some []) (Str []) = 4
   \<and> count ex_todos (Some [(''tenantId'', Equals (Str []))]) Null = 0
   \<and> findMany ex_todos (Some [(''userId'', Equals (Str ''u9''))]) (Str ''A'')
        (no_options\<lparr> where_key := Some (Some [(''userId'', Equals (Str ''u9''))]) \<rparr>)
       = Inr [ [(''id'', Str ''t4''), (''status'', Str ''IN_PROGRESS''), (''userId'', Str ''u9''),
                (''tenantId'', Str ''B'')] ]
   \<and> findMany ex_todos (Some [(''userId'', Equals (Str ''u9''))]) (Str ''A'') no_options = Inr []"
  by (simp add: ex_defs repo_defs)

section \<open>The supplied tenant id overrides the caller's\<close>

text \<open>
  Claim C9, as the code has it. For a predicate that already has a \<open>tenantId\<close> entry and
  every truthy tenant id \<open>t\<close>, \<open>addTenantFilter\<close> replaces the entry: the result constrains
  \<open>tenantId\<close> to \<open>t\<close>, keeps the keys and every other entry of the caller, and only rows
  of tenant \<open>t\<close> pass it.
\<close>

theorem tenant_filter_override:
  assumes "truthy t" and "map_of w ''tenantId'' = Some c"
  shows "\<exists>w'. addTenantFilter (Some w) t = Some w'
           \<and> map_of w' ''tenantId'' = Some (Equals t)
           \<and> map fst w' = map fst w
           \<and> (\<forall>k. k \<noteq> ''tenantId'' \<longrightarrow> map_of w' k = map_of w k)
           \<and> (\<forall>row. matches (Some w') row \<longrightarrow> field row ''tenantId'' = t)"
proof -
  let ?w' = "AList.update ''tenantId'' (Equals t) w"
  have 1: "addTenantFilter (Some w) t = Some ?w'"
    using assms(1) by (simp add: addTenantFilter_def)
  have 2: "map_of ?w' ''tenantId'' = Some (Equals t)"
    by (simp add: update_conv')
  have "''tenantId'' \<in> set (map fst w)"
    using assms(2) by (metis map_of_SomeD fst_conv image_eqI set_map)
  then have 3: "map fst ?w' = map fst w"
    by (simp add: update_keys)
  have 4: "\<forall>k. k \<noteq> ''tenantId'' \<longrightarrow> map_of ?w' k = map_of w k"
    by (simp add: update_conv')
  have 5: "\<forall>row. matches (Some ?w') row \<longrightarrow> field row ''tenantId'' = t"
    using matches_tenant[OF assms(1), of "Some w"] 1 by simp
  from 1 2 3 4 5 show ?thesis by blast
qed

theorem tenant_filter_override_witness:
  "truthy (Str ''A'')
   \<and> addTenantFilter (Some [(''tenantId'', Equals (Str ''B'')), (''userId'', Equals (Str ''u9''))])
        (Str ''A'')
       = Some [(''tenantId'', Equals (Str ''A'')), (''userId'', Equals (Str ''u9''))]"
  using tenant_filter_override
          [of "Str ''A''" "[(''tenantId'', Equals (Str ''B'')), (''userId'', Equals (Str ''u9''))]"
              "Equals (Str ''B'')"]
  by (simp add: addTenantFilter_def)

text \<open>
  With the empty string supplied, which is not \<^verbatim>\<open>null\<close>, the entry of the caller stays.
\<close>

theorem tenant_filter_override_counterexample:
  "Str [] \<noteq> Null
   \<and> addTenantFilter (Some [(''tenantId'', Equals (Str ''B''))]) (Str [])
       = Some [(''tenantId'', Equals (Str ''B''))]"
  by (simp add: addTenantFilter_def)

section \<open>Pagination\<close>











section \<open>Update and delete under a tenant\<close>

lemmas store_defs = update_def delete_def prisma_update_def prisma_delete_def spread_def

text \<open>
  Claim C3, as the code has it. \<open>update\<close> and \<open>delete\<close> first read the row under the
  predicate \<open>id = i\<close> with the tenant filter. For every id and every truthy tenant id
  (a non-empty string), when no row with that id belongs to that tenant, whether no row
  has the id at all or a row of another tenant has it, the call fails with the same plain
  \<^verbatim>\<open>Error\<close> whose message is the model name followed by \<open>not found\<close>, and the table is
  as before. The error is not a \<^verbatim>\<open>NotFoundError\<close>: the repositories use none of the error
  classes.
\<close>

theorem scoped_update_delete_absent:
  assumes "truthy t" and "i \<noteq> Undefined"
    and "\<forall>r \<in> set (rows m). field r ''id'' = i \<longrightarrow> field r ''tenantId'' \<noteq> t"
  shows "update m i d t = (m, Inl (Error (modelName m @ '' not found'')))
       \<and> delete m i t = (m, Inl (Error (modelName m @ '' not found'')))"
proof -
  let ?wh = "Some [(''id'', Equals i), (''tenantId'', Equals t)]"
  have wh: "addTenantFilter (Some [(''id'', Equals i)]) t = ?wh"
    using assms(1) by (simp add: addTenantFilter_def)
  have "\<not> matches ?wh r" if "r \<in> set (rows m)" for r
    using assms that truthy_defined[OF assms(1)] by (auto simp: matches_def)
  then have "filter (matches ?wh) (rows m) = []"
    by (simp add: filter_empty_conv)
  then have "prisma_findFirst m (query ?wh None None no_options) = None"
    by (simp add: prisma_findFirst_def query_def no_options_def ordered_def)
  then show ?thesis
    by (simp add: update_def delete_def wh)
qed

theorem scoped_update_delete_absent_witness:
  "truthy (Str ''B'')
   \<and> update ex_todos (Str ''t1'') [(''status'', Str ''CANCELLED'')] (Str ''B'')
       = (ex_todos, Inl (Error ''todo not found''))
   \<and> update ex_todos (Str ''t0'') [(''status'', Str ''CANCELLED'')] (Str ''B'')
       = (ex_todos, Inl (Error ''todo not found''))
   \<and> delete ex_todos (Str ''t1'') (Str ''B'') = (ex_todos, Inl (Error ''todo not found''))
   \<and> delete ex_todos (Str ''t0'') (Str ''B'') = (ex_todos, Inl (Error ''todo not found''))"
  using scoped_update_delete_absent
          [of "Str ''B''" "Str ''t1''" ex_todos "[(''status'', Str ''CANCELLED'')]"]
        scoped_update_delete_absent
          [of "Str ''B''" "Str ''t0''" ex_todos "[(''status'', Str ''CANCELLED'')]"]
  by (simp add: ex_defs field_def)

text \<open>
  What the failure is: a plain error, which is no instance of \<^verbatim>\<open>NotFoundError\<close> and which
  the todo controller answers with status 500. And with the empty string for the tenant
  id, which is not \<^verbatim>\<open>null\<close>, the read is not scoped: the todo \<open>t4\<close> of tenant \<open>B\<close> is
  found and updated.
\<close>

theorem scoped_update_counterexample:
  "snd (update ex_todos (Str ''t1'') [(''status'', Str ''CANCELLED'')] (Str ''B''))
     = Inl (Error ''todo not found'')
   \<and> \<not> isNotFoundError (Error ''todo not found'')
   \<and> fst (todo_handleError (Error ''todo not found'')) = 500
   \<and> Str [] \<noteq> Null
   \<and> rows (fst (update ex_todos (Str ''t4'') [(''status'', Str ''CANCELLED'')] (Str [])))
       = [ [(''id'', Str ''t1''), (''status'', Str ''PENDING''), (''userId'', Str ''u1''),
            (''tenantId'', Str ''A'')],
           [(''id'', Str ''t2''), (''status'', Str ''COMPLETED''), (''userId'', Str ''u1''),
            (''tenantId'', Str ''A'')],
           [(''id'', Str ''t3''), (''status'', Str ''PENDING''), (''userId'', Str ''u2''),
            (''tenantId'', Str ''A'')],
           [(''id'', Str ''t4''), (''status'', Str ''CANCELLED''), (''userId'', Str ''u9''),
            (''tenantId'', Str ''B'')] ]"
  by (simp add: ex_defs repo_defs store_defs todo_handleError_def)

section \<open>Authentication and the tenant of the user\<close>

lemma split_on_first: "\<exists>rest. split_on c s = takeWhile (\<lambda>x. x \<noteq> c) s # rest"
  by (induction s) auto

lemma split_on_Bearer:
  "\<exists>rest. split_on CHR '' '' (''Bearer '' @ cred)
            = ''Bearer'' # takeWhile (\<lambda>x. x \<noteq> CHR '' '') cred # rest"
proof -
  obtain rest where "split_on CHR '' '' cred = takeWhile (\<lambda>x. x \<noteq> CHR '' '') cred # rest"
    using split_on_first by blast
  then show ?thesis by simp
qed

lemma first_of_filter:
  "(case filter P xs of [] \<Rightarrow> None | r # rs \<Rightarrow> Some (f r)) = map_option f (find P xs)"
  by (induction xs) auto

lemma prisma_findFirst_find:
  "prisma_findFirst m \<lparr> orderBy = None, select = Some ks, whereClause = wh,
                         skip = sk, take_n = tk \<rparr>
     = map_option (pick ks) (find (matches wh) (rows m))"
  by (simp add: prisma_findFirst_def ordered_def selected_def first_of_filter)

lemma map_of_pick: "map_of (pick ks ob) k = (if k \<in> set ks then map_of ob k else None)"
  by (induction ob) (auto simp: pick_def)

lemma field_pick: "k \<in> set ks \<Longrightarrow> field (pick ks ob) k = field ob k"
  by (simp add: field_def map_of_pick)

lemma strict_equal_Str: "strict_equal a (Str s) \<longleftrightarrow> a = Str s"
  by (cases a) (simp_all add: strict_equal_def)

text \<open>
  Claim C1. On a request that carries a bearer credential which the token library
  accepts, for the active user \<open>u\<close> that the store returns for the payload's user id, and
  with a tenant context that is not the main domain and has the resolved tenant id
  \<open>tid\<close>: when the tenant id of \<open>u\<close> is \<open>tid\<close> the middleware attaches the user and goes on;
  when it differs the middleware answers 403 with \<^verbatim>\<open>ForbiddenError\<close> and the request is
  as it was, with no user attached. So it goes on only if the two are equal.
\<close>

theorem authMiddleware_tenant_match:
  assumes hdr: "req_authorization req = Some (''Bearer '' @ cred)"
    and tok: "jwt_verify (takeWhile (\<lambda>c. c \<noteq> CHR '' '') cred) = Inr decoded"
    and usr: "find (matches (Some [(''id'', Equals (field decoded ''userId'')),
                                   (''isActive'', Equals (Bool True))])) (rows users) = Some u"
    and ctx: "\<not> truthy (req_isMainDomain req)" "req_tenantId req = Str tid"
  shows "(field u ''tenantId'' = Str tid \<longrightarrow>
            authMiddleware jwt_verify users req
              = (req\<lparr> req_user := Some (pick user_select u), req_userId := field u ''id'' \<rparr>, Next))
       \<and> (field u ''tenantId'' \<noteq> Str tid \<longrightarrow>
            authMiddleware jwt_verify users req
              = (req, Responded (403, [(''error'', Str ''ForbiddenError''),
                                       (''message'', Str ''User does not belong to this tenant'')])))
       \<and> (snd (authMiddleware jwt_verify users req) = Next \<longleftrightarrow> field u ''tenantId'' = Str tid)"
proof -
  obtain rest where sp: "split_on CHR '' '' (''Bearer '' @ cred)
      = ''Bearer'' # takeWhile (\<lambda>x. x \<noteq> CHR '' '') cred # rest"
    using split_on_Bearer by blast
  have st: "startsWith (''Bearer '' @ cred) ''Bearer ''"
    by (simp add: startsWith_def)
  have t: "field (pick user_select u) ''tenantId'' = field u ''tenantId''"
    and i: "field (pick user_select u) ''id'' = field u ''id''"
    by (simp_all add: field_pick user_select_def)
  have au: "authenticate jwt_verify users req =
      (if field u ''tenantId'' \<noteq> Str tid
       then Inl (ForbiddenError ''User does not belong to this tenant'')
       else Inr (req\<lparr> req_user := Some (pick user_select u), req_userId := field u ''id'' \<rparr>))"
    unfolding authenticate_def
    by (simp only: hdr option.case st sp list.case tok sum.case prisma_findFirst_find usr
          option.map t i ctx strict_equal_Str)
       simp
  show ?thesis
    by (simp add: authMiddleware_def au)
qed

theorem authMiddleware_tenant_match_witness:
  "authMiddleware ex_verify ex_users
       (ex_request\<lparr> req_tenantId := Str ''A'', req_isMainDomain := Bool False \<rparr>)
     = (ex_request\<lparr> req_tenantId := Str ''A'', req_isMainDomain := Bool False,
                     req_user := Some [(''id'', Str ''u1''), (''email'', Str ''a@x.com''),
                                       (''role'', Str ''USER''), (''tenantId'', Str ''A'')],
                     req_userId := Str ''u1'' \<rparr>, Next)
   \<and> authMiddleware ex_verify ex_users
       (ex_request\<lparr> req_tenantId := Str ''B'', req_isMainDomain := Bool False \<rparr>)
     = (ex_request\<lparr> req_tenantId := Str ''B'', req_isMainDomain := Bool False \<rparr>,
        Responded (403, [(''error'', Str ''ForbiddenError''),
                         (''message'', Str ''User does not belong to this tenant'')]))"
  using authMiddleware_tenant_match
          [of "ex_request\<lparr> req_tenantId := Str ''A'', req_isMainDomain := Bool False \<rparr>"
              "''access-u1''" ex_verify
              "[(''userId'', Str ''u1''), (''tenantId'', Str ''A''), (''role'', Str ''USER'')]"
              ex_users "hd (rows ex_users)" "''A''"]
        authMiddleware_tenant_match
          [of "ex_request\<lparr> req_tenantId := Str ''B'', req_isMainDomain := Bool False \<rparr>"
              "''access-u1''" ex_verify
              "[(''userId'', Str ''u1''), (''tenantId'', Str ''A''), (''role'', Str ''USER'')]"
              ex_users "hd (rows ex_users)" "''B''"]
  by (simp add: ex_request_def ex_verify_def ex_users_def matches_def field_def pick_def
      user_select_def)

section \<open>Resolving the tenant of a host name\<close>

lemma matches_subdomain_active:
  "matches (Some [(''subdomain'', Equals (Str l)), (''isActive'', Equals (Bool True))]) r
     \<longleftrightarrow> field r ''subdomain'' = Str l \<and> field r ''isActive'' = Bool True"
  by (simp add: matches_def)

text \<open>
  Claim C5, as the code has it. The main-domain branch is taken when the host name equals
  the configured main domain or contains \<open>localhost\<close>. For every other host name, the
  candidate subdomain is the part before the first dot; when an active tenant has that
  subdomain, the request goes on with that tenant (its selected columns), its id and
  \<open>isMainDomain = false\<close>; when none has (unknown subdomain or deactivated tenant),
  resolution fails with \<^verbatim>\<open>TenantNotFoundError\<close>, answered with status 404.
\<close>

theorem tenantMiddleware_subdomain:
  assumes "req_hostname req \<noteq> domain_main cfg"
    and "\<not> includes_str (req_hostname req) ''localhost''"
  shows "case find (\<lambda>r. field r ''subdomain''
                           = Str (takeWhile (\<lambda>c. c \<noteq> CHR ''.'') (req_hostname req))
                         \<and> field r ''isActive'' = Bool True) (rows tenants) of
           Some tn \<Rightarrow>
             tenantMiddleware cfg tenants req
               = (req\<lparr> req_tenant := Some (pick tenant_select tn),
                        req_tenantId := field tn ''id'',
                        req_isMainDomain := Bool False \<rparr>, Next)
         | None \<Rightarrow>
             resolveTenant cfg tenants req
               = Inl (TenantNotFoundError
                        (''Tenant with subdomain '' @ quote
                           @ takeWhile (\<lambda>c. c \<noteq> CHR ''.'') (req_hostname req)
                           @ quote @ '' not found''))
             \<and> tenantMiddleware cfg tenants req
               = (req, Responded (404,
                    [(''error'', Str ''Tenant not found''),
                     (''message'', Str (''Tenant with subdomain '' @ quote
                           @ takeWhile (\<lambda>c. c \<noteq> CHR ''.'') (req_hostname req)
                           @ quote @ '' not found''))]))"
proof -
  let ?l = "takeWhile (\<lambda>c. c \<noteq> CHR ''.'') (req_hostname req)"
  obtain rest where sp: "split_on CHR ''.'' (req_hostname req) = ?l # rest"
    using split_on_first by blast
  have i: "field (pick tenant_select tn) ''id'' = field tn ''id''" for tn
    by (simp add: field_pick tenant_select_def)
  have m: "matches (Some [(''subdomain'', Equals (Str ?l)), (''isActive'', Equals (Bool True))])
           = (\<lambda>r. field r ''subdomain'' = Str ?l \<and> field r ''isActive'' = Bool True)"
    by (rule ext) (rule matches_subdomain_active)
  have r: "resolveTenant cfg tenants req =
      (case find (\<lambda>r. field r ''subdomain'' = Str ?l \<and> field r ''isActive'' = Bool True)
              (rows tenants) of
         None \<Rightarrow> Inl (TenantNotFoundError
                        (''Tenant with subdomain '' @ quote @ ?l @ quote @ '' not found''))
       | Some tn \<Rightarrow> Inr (req\<lparr> req_tenant := Some (pick tenant_select tn),
                               req_tenantId := field tn ''id'',
                               req_isMainDomain := Bool False \<rparr>))"
    unfolding resolveTenant_def
    using assms
    by (simp add: sp prisma_findFirst_find m i split: option.splits)
  show ?thesis
    by (simp add: tenantMiddleware_def r split: option.splits)
qed

theorem tenantMiddleware_subdomain_witness:
  "tenantMiddleware ex_config ex_tenants ex_request
     = (ex_request\<lparr> req_tenant := Some [(''id'', Str ''A''), (''name'', Str ''Acme''),
                                         (''subdomain'', Str ''acme'')],
                     req_tenantId := Str ''A'', req_isMainDomain := Bool False \<rparr>, Next)
   \<and> tenantMiddleware ex_config ex_tenants (ex_request\<lparr> req_hostname := ''old.todolist.com'' \<rparr>)
     = (ex_request\<lparr> req_hostname := ''old.todolist.com'' \<rparr>,
        Responded (404, [(''error'', Str ''Tenant not found''),
                         (''message'', Str (''Tenant with subdomain '' @ quote @ ''old'' @ quote
                                            @ '' not found''))]))"
  using tenantMiddleware_subdomain [of ex_request ex_config ex_tenants]
        tenantMiddleware_subdomain
          [of "ex_request\<lparr> req_hostname := ''old.todolist.com'' \<rparr>" ex_config ex_tenants]
  by (simp add: ex_request_def ex_config_def ex_tenants_def field_def pick_def tenant_select_def)

text \<open>
  A host name that is not the main domain and contains \<open>localhost\<close> is treated as the main
  domain: no tenant is looked up, whether its first label is a known subdomain (\<open>acme\<close>)
  or not (\<open>ghost\<close>), and nothing is answered with 404.
\<close>

theorem tenantMiddleware_localhost_counterexample:
  "''acme.localhost'' \<noteq> domain_main ex_config
   \<and> tenantMiddleware ex_config ex_tenants (ex_request\<lparr> req_hostname := ''acme.localhost'' \<rparr>)
       = (ex_request\<lparr> req_hostname := ''acme.localhost'', req_isMainDomain := Bool True \<rparr>, Next)
   \<and> ''ghost.localhost'' \<noteq> domain_main ex_config
   \<and> tenantMiddleware ex_config ex_tenants (ex_request\<lparr> req_hostname := ''ghost.localhost'' \<rparr>)
       = (ex_request\<lparr> req_hostname := ''ghost.localhost'', req_isMainDomain := Bool True \<rparr>, Next)"
  by (simp add: tenantMiddleware_def resolveTenant_def ex_request_def ex_config_def)

section \<open>Ownership of a todo\<close>

text \<open>
  Claim C4 at a todo of another user. The todo \<open>t3\<close> of tenant \<open>A\<close> belongs to user \<open>u2\<close>;
  user \<open>u1\<close> of the same tenant addresses it. The tenant-scoped read finds it, and the
  ownership check then raises the \<^verbatim>\<open>ReferenceError\<close> of the unbound name
  \<^verbatim>\<open>ForbiddenError\<close>: reading, updating and deleting fail with it and leave the table as
  it was, and the controller, for which the error is no \<^verbatim>\<open>ForbiddenError\<close>, answers 500
  where the claim has \<open>Forbidden\<close>. The todo \<open>t4\<close> of tenant \<open>B\<close> is not found from tenant
  \<open>A\<close>, and \<open>u1\<close> reads the own todo \<open>t1\<close>.
\<close>

theorem todo_of_another_user_not_forbidden:
  "findById ex_todos (Str ''t3'') (Str ''A'') no_options
     = Some [(''id'', Str ''t3''), (''status'', Str ''PENDING''), (''userId'', Str ''u2''),
             (''tenantId'', Str ''A'')]
   \<and> getTodoById ex_todos (Str ''t3'') (Str ''u1'') (Str ''A'')
     = Inl (ReferenceError ''ForbiddenError is not defined'')
   \<and> updateTodo id ex_todos (Str ''t3'') [(''title'', Str ''mine'')] (Str ''u1'') (Str ''A'')
     = (ex_todos, Inl (ReferenceError ''ForbiddenError is not defined''))
   \<and> deleteTodo ex_todos (Str ''t3'') (Str ''u1'') (Str ''A'')
     = (ex_todos, Inl (ReferenceError ''ForbiddenError is not defined''))
   \<and> isForbiddenError (ReferenceError ''ForbiddenError is not defined'') = False
   \<and> todo_handleError (ReferenceError ''ForbiddenError is not defined'')
     = (500, [(''error'', Str ''Internal Server Error''),
              (''message'', Str ''An unexpected error occurred'')])
   \<and> getTodoById ex_todos (Str ''t4'') (Str ''u1'') (Str ''A'')
     = Inl (NotFoundError ''Todo not found'')
   \<and> getTodoById ex_todos (Str ''t1'') (Str ''u1'') (Str ''A'')
     = Inr [(''id'', Str ''t1''), (''status'', Str ''PENDING''), (''userId'', Str ''u1''),
            (''tenantId'', Str ''A'')]"
  by (simp add: getTodoById_def updateTodo_def deleteTodo_def todo_handleError_def
      strict_equal_def ex_defs repo_defs)

section \<open>Statistics\<close>

lemma length_partition4:
  assumes "\<forall>r \<in> set xs. f r \<in> {a, b, c, d}" and "distinct [a, b, c, d]"
  shows "length (filter (\<lambda>r. Q r \<and> f r = a) xs) + length (filter (\<lambda>r. Q r \<and> f r = b) xs)
       + length (filter (\<lambda>r. Q r \<and> f r = c) xs) + length (filter (\<lambda>r. Q r \<and> f r = d) xs)
       = length (filter Q xs)"
  using assms by (induction xs) auto

lemma count_status:
  "count m (Some (AList.update ''status'' (Equals (Str s))
                    (entries (addTenantFilter (Some [(''userId'', Equals uid)]) t)))) t
     = length (filter (\<lambda>r. matches (addTenantFilter (Some [(''userId'', Equals uid)]) t) r
                           \<and> field r ''status'' = Str s) (rows m))"
proof -
  have "matches (addTenantFilter (Some (AList.update ''status'' (Equals (Str s))
                    (entries (addTenantFilter (Some [(''userId'', Equals uid)]) t)))) t) r
        \<longleftrightarrow> matches (addTenantFilter (Some [(''userId'', Equals uid)]) t) r
              \<and> field r ''status'' = Str s" for r
    by (cases "truthy t") (auto simp: addTenantFilter_def entries_def matches_def)
  then have "matches (addTenantFilter (Some (AList.update ''status'' (Equals (Str s))
                    (entries (addTenantFilter (Some [(''userId'', Equals uid)]) t)))) t)
        = (\<lambda>r. matches (addTenantFilter (Some [(''userId'', Equals uid)]) t) r
              \<and> field r ''status'' = Str s)"
    by (rule ext)
  then show ?thesis
    by (simp add: count_def prisma_count_def)
qed

lemma count_total:
  "count m (addTenantFilter (Some [(''userId'', Equals uid)]) t) t
     = length (filter (matches (addTenantFilter (Some [(''userId'', Equals uid)]) t)) (rows m))"
proof -
  have "addTenantFilter (addTenantFilter (Some [(''userId'', Equals uid)]) t) t
          = addTenantFilter (Some [(''userId'', Equals uid)]) t"
    by (simp add: addTenantFilter_def)
  then show ?thesis by (simp add: count_def prisma_count_def)
qed

text \<open>
  Claim C8, as the code has it. On one state of the table in which every todo has one of
  the four statuses, for the todos of a user within a tenant: completed, in progress,
  pending and the cancelled ones add up to the total; the completion rate is
  completed / total * 100 when the total is positive and 0 when the total is 0; and the
  completion rate is 0 exactly when no todo is completed (which includes a total of 0).
\<close>

theorem statistics_partition:
  assumes "\<forall>r \<in> set (rows todos).
             field r ''status'' \<in> {Str ''COMPLETED'', Str ''IN_PROGRESS'', Str ''PENDING'',
                                   Str ''CANCELLED''}"
  shows "completed (getStatistics now todos uid t) + inProgress (getStatistics now todos uid t)
           + pending (getStatistics now todos uid t)
           + length (filter (\<lambda>r. matches (addTenantFilter (Some [(''userId'', Equals uid)]) t) r
                                 \<and> field r ''status'' = Str ''CANCELLED'') (rows todos))
         = total_todos (getStatistics now todos uid t)
       \<and> (0 < total_todos (getStatistics now todos uid t) \<longrightarrow>
            completionRate (getStatistics now todos uid t)
              = real (completed (getStatistics now todos uid t))
                / real (total_todos (getStatistics now todos uid t)) * 100)
       \<and> (total_todos (getStatistics now todos uid t) = 0 \<longrightarrow>
            completionRate (getStatistics now todos uid t) = 0)
       \<and> (completionRate (getStatistics now todos uid t) = 0
            \<longleftrightarrow> completed (getStatistics now todos uid t) = 0)"
proof -
  let ?s = "getStatistics now todos uid t"
  let ?Q = "matches (addTenantFilter (Some [(''userId'', Equals uid)]) t)"
  let ?n = "\<lambda>s. length (filter (\<lambda>r. ?Q r \<and> field r ''status'' = Str s) (rows todos))"
  have tot: "total_todos ?s = length (filter ?Q (rows todos))"
    by (simp add: getStatistics_def Let_def count_total)
  have c: "completed ?s = ?n ''COMPLETED''"
    and p: "inProgress ?s = ?n ''IN_PROGRESS''"
    and q: "pending ?s = ?n ''PENDING''"
    by (simp_all add: getStatistics_def Let_def count_status)
  have part: "?n ''COMPLETED'' + ?n ''IN_PROGRESS'' + ?n ''PENDING'' + ?n ''CANCELLED''
                = length (filter ?Q (rows todos))"
    by (rule length_partition4[OF assms]) simp
  have rate: "completionRate ?s
                = (if 0 < total_todos ?s
                   then real (completed ?s) / real (total_todos ?s) * 100 else 0)"
    by (simp add: getStatistics_def Let_def)
  have le: "completed ?s \<le> total_todos ?s"
    using part by (simp add: tot c)
  show ?thesis
    using le by (auto simp: rate tot c p q part)
qed

theorem statistics_partition_witness:
  "getStatistics 0 ex_todos (Str ''u1'') (Str ''A'')
     = \<lparr> total_todos = 2, completed = 1, inProgress = 0, pending = 1, overdue = 0,
         highPriority = 0, completionRate = 50 \<rparr>
   \<and> length (filter (\<lambda>r. matches (addTenantFilter (Some [(''userId'', Equals (Str ''u1''))])
                                     (Str ''A'')) r
                         \<and> field r ''status'' = Str ''CANCELLED'') (rows ex_todos)) = 0"
proof -
  have h: "\<forall>r \<in> set (rows ex_todos).
             field r ''status'' \<in> {Str ''COMPLETED'', Str ''IN_PROGRESS'', Str ''PENDING'',
                                   Str ''CANCELLED''}"
    by (simp add: ex_todos_def field_def)
  have s: "getStatistics 0 ex_todos (Str ''u1'') (Str ''A'')
     = \<lparr> total_todos = 2, completed = 1, inProgress = 0, pending = 1, overdue = 0,
         highPriority = 0, completionRate = 50 \<rparr>"
    by (simp add: getStatistics_def Let_def entries_def ex_defs repo_defs)
  from statistics_partition [OF h, of 0 "Str ''u1''" "Str ''A''"]
  show ?thesis unfolding s by simp
qed

text \<open>
  User \<open>u2\<close> has one todo, which is pending: the completion rate is 0 and the total is not.
\<close>

theorem statistics_zero_rate_counterexample:
  "total_todos (getStatistics 0 ex_todos (Str ''u2'') (Str ''A'')) = 1
   \<and> completionRate (getStatistics 0 ex_todos (Str ''u2'') (Str ''A'')) = 0"
  by (simp add: getStatistics_def Let_def entries_def ex_defs repo_defs)

section \<open>Registration\<close>

lemma field_update: "field (AList.update k v ob) k' = (if k' = k then v else field ob k')"
  by (simp add: field_def update_conv')

lemma map_of_assign_keys:
  "map_of (fold (\<lambda>k ob. AList.update k (field b k) ob) ks a) k
     = (if k \<in> set ks then Some (field b k) else map_of a k)"
  by (induction ks arbitrary: a) (auto simp: update_conv')

lemma field_spread:
  "field (spread a b) k = (if k \<in> set (map fst b) then field b k else field a k)"
  by (simp add: spread_def field_def[of "fold _ _ _"] map_of_assign_keys)
     (simp add: field_def)

lemma spread_single: "spread r [(k, v)] = AList.update k v r"
  by (simp add: spread_def field_def)

lemma prisma_findFirst_plain:
  "prisma_findFirst m (query wh None None no_options) = find (matches wh) (rows m)"
proof -
  have "prisma_findFirst m (query wh None None no_options)
          = (case filter (matches wh) (rows m) of [] \<Rightarrow> None | r # rs \<Rightarrow> Some ((\<lambda>r. r) r))"
    by (simp add: prisma_findFirst_def query_def no_options_def ordered_def selected_def
        split: list.splits)
  then show ?thesis
    by (simp only: first_of_filter option.map_ident)
qed

lemma findByEmail_find:
  assumes "truthy t"
  shows "findByEmail m (Str e) t
           = find (\<lambda>r. field r ''email'' = Str e \<and> field r ''tenantId'' = t) (rows m)"
proof -
  have "matches (Some [(''email'', Equals (Str e)), (''tenantId'', Equals t)])
          = (\<lambda>r. field r ''email'' = Str e \<and> field r ''tenantId'' = t)"
    using truthy_defined[OF assms] by (intro ext) (simp add: matches_def)
  then show ?thesis
    using assms
    by (simp add: findByEmail_def findOne_def addTenantFilter_def prisma_findFirst_plain)
qed

lemma new_user_fields:
  assumes "field userData ''email'' = Str e"
  shows "field (new_user hash m userData pw t) ''email'' = Str e"
    and "field (new_user hash m userData pw t) ''password'' = Str (hash pw)"
    and "field (new_user hash m userData pw t) ''role'' = Str ''USER''"
    and "field (new_user hash m userData pw t) ''tenantId'' = t"
proof -
  have "map_of userData ''email'' = Some (Str e)"
    using assms by (simp add: field_def split: option.splits)
  then have "''email'' \<in> fst ` set userData"
    by (metis map_of_SomeD fst_conv image_eqI)
  then show "field (new_user hash m userData pw t) ''email'' = Str e"
    using assms by (simp add: new_user_def field_spread field_update dom_update)
  show "field (new_user hash m userData pw t) ''password'' = Str (hash pw)"
    "field (new_user hash m userData pw t) ''role'' = Str ''USER''"
    "field (new_user hash m userData pw t) ''tenantId'' = t"
    by (simp_all add: new_user_def field_spread field_update dom_update)
qed

lemma registerUser_fresh:
  assumes "truthy t" and "''tenantId'' \<in> set (model_fields m)"
    and "field userData ''email'' = Str e" and "field userData ''password'' = Str pw"
    and "\<forall>r \<in> set (rows m). field r ''email'' = Str e \<longrightarrow> field r ''tenantId'' \<noteq> t"
  shows "registerUser hash sign m userData t
           = (m\<lparr> rows := rows m @ [new_user hash m userData pw t] \<rparr>,
              Inr (new_user hash m userData pw t,
                   sign [(''userId'', field (new_user hash m userData pw t) ''id''),
                         (''tenantId'', field (new_user hash m userData pw t) ''tenantId''),
                         (''role'', field (new_user hash m userData pw t) ''role'')]))"
proof -
  have "find (\<lambda>r. field r ''email'' = Str e \<and> field r ''tenantId'' = t) (rows m) = None"
    using assms(5) by (auto simp: find_None_iff)
  then have "findByEmail m (Str e) t = None"
    by (simp add: findByEmail_find[OF assms(1)])
  then show ?thesis
    using assms(1-4)
    by (simp add: registerUser_def bcrypt_hash_def create_def prisma_create_def new_user_def
        Let_def)
qed

lemma registerUser_taken:
  assumes "truthy t" and "field userData ''email'' = Str e"
    and "\<exists>r \<in> set (rows m). field r ''email'' = Str e \<and> field r ''tenantId'' = t"
  shows "registerUser hash sign m userData t
           = (m, Inl (ConflictError ''Email already registered in this organization''))"
proof -
  have "find (\<lambda>r. field r ''email'' = Str e \<and> field r ''tenantId'' = t) (rows m) \<noteq> None"
    using assms(3) by (auto simp: find_None_iff)
  then obtain r where "findByEmail m (Str e) t = Some r"
    by (auto simp: findByEmail_find[OF assms(1)])
  then show ?thesis
    using assms(2) by (simp add: registerUser_def)
qed

text \<open>
  Claim C6. For tenants \<open>t1\<close> and \<open>t2\<close> (two different truthy tenant ids, on a user table
  that has the \<open>tenantId\<close> column), an e-mail address that no user of either tenant has,
  and a password: registering in \<open>t1\<close> succeeds and appends one user with that e-mail
  address, the tenant id \<open>t1\<close>, the digest of the password and the role \<open>USER\<close>; registering
  the same data again in \<open>t1\<close> fails with \<^verbatim>\<open>ConflictError\<close> and leaves the table as it
  was; registering the same data in \<open>t2\<close> then succeeds and appends one user of \<open>t2\<close>.
  The uniqueness constraints of the schema itself are outside the model of the store.
\<close>

theorem registerUser_unique_per_tenant:
  assumes "truthy t1" and "truthy t2" and "t1 \<noteq> t2"
    and "''tenantId'' \<in> set (model_fields users)"
    and "field userData ''email'' = Str e" and "field userData ''password'' = Str pw"
    and "\<forall>r \<in> set (rows users).
           field r ''email'' = Str e \<longrightarrow> field r ''tenantId'' \<noteq> t1 \<and> field r ''tenantId'' \<noteq> t2"
  shows "\<exists>users1 u1 tok1 users2 u2 tok2.
           registerUser hash sign users userData t1 = (users1, Inr (u1, tok1))
         \<and> rows users1 = rows users @ [u1]
         \<and> field u1 ''email'' = Str e \<and> field u1 ''tenantId'' = t1
         \<and> field u1 ''password'' = Str (hash pw) \<and> field u1 ''role'' = Str ''USER''
         \<and> registerUser hash sign users1 userData t1
             = (users1, Inl (ConflictError ''Email already registered in this organization''))
         \<and> registerUser hash sign users1 userData t2 = (users2, Inr (u2, tok2))
         \<and> rows users2 = rows users1 @ [u2]
         \<and> field u2 ''email'' = Str e \<and> field u2 ''tenantId'' = t2
         \<and> field u2 ''password'' = Str (hash pw) \<and> field u2 ''role'' = Str ''USER''"
proof -
  let ?u1 = "new_user hash users userData pw t1"
  let ?users1 = "users\<lparr> rows := rows users @ [?u1] \<rparr>"
  let ?u2 = "new_user hash ?users1 userData pw t2"
  let ?users2 = "?users1\<lparr> rows := rows ?users1 @ [?u2] \<rparr>"
  note f1 = new_user_fields[OF assms(5), of hash users pw t1]
  note f2 = new_user_fields[OF assms(5), of hash ?users1 pw t2]
  have fresh1: "\<forall>r \<in> set (rows users). field r ''email'' = Str e \<longrightarrow> field r ''tenantId'' \<noteq> t1"
    using assms(7) by blast
  have r1: "registerUser hash sign users userData t1
              = (?users1, Inr (?u1, sign [(''userId'', field ?u1 ''id''),
                                         (''tenantId'', field ?u1 ''tenantId''),
                                         (''role'', field ?u1 ''role'')]))"
    by (rule registerUser_fresh[OF assms(1) assms(4) assms(5) assms(6) fresh1])
  have taken: "\<exists>r \<in> set (rows ?users1). field r ''email'' = Str e \<and> field r ''tenantId'' = t1"
    using f1 by simp
  have r2: "registerUser hash sign ?users1 userData t1
              = (?users1, Inl (ConflictError ''Email already registered in this organization''))"
    by (rule registerUser_taken[OF assms(1) assms(5) taken])
  have fresh2: "\<forall>r \<in> set (rows ?users1). field r ''email'' = Str e \<longrightarrow> field r ''tenantId'' \<noteq> t2"
    using assms(3,7) f1 by auto
  have fld: "''tenantId'' \<in> set (model_fields ?users1)"
    using assms(4) by simp
  have r3: "registerUser hash sign ?users1 userData t2
              = (?users2, Inr (?u2, sign [(''userId'', field ?u2 ''id''),
                                         (''tenantId'', field ?u2 ''tenantId''),
                                         (''role'', field ?u2 ''role'')]))"
    by (rule registerUser_fresh[OF assms(2) fld assms(5) assms(6) fresh2])
  have "rows ?users1 = rows users @ [?u1]" "rows ?users2 = rows ?users1 @ [?u2]"
    by simp_all
  with r1 r2 r3 f1 f2 show ?thesis by blast
qed

theorem registerUser_unique_per_tenant_witness:
  "registerUser ex_hash ex_sign ex_users ex_userData (Str ''A'')
     = (ex_users\<lparr> rows := rows ex_users @
            [[(''id'', Str ''u-new''), (''isActive'', Bool True), (''email'', Str ''c@x.com''),
              (''password'', Str ''#Secret1!''), (''name'', Str ''C''), (''role'', Str ''USER''),
              (''tenantId'', Str ''A'')]] \<rparr>,
        Inr ([(''id'', Str ''u-new''), (''isActive'', Bool True), (''email'', Str ''c@x.com''),
              (''password'', Str ''#Secret1!''), (''name'', Str ''C''), (''role'', Str ''USER''),
              (''tenantId'', Str ''A'')], ''jwt''))
   \<and> (\<exists>users1 u1 tok1 users2 u2 tok2.
         registerUser ex_hash ex_sign ex_users ex_userData (Str ''A'') = (users1, Inr (u1, tok1))
       \<and> registerUser ex_hash ex_sign users1 ex_userData (Str ''A'')
           = (users1, Inl (ConflictError ''Email already registered in this organization''))
       \<and> registerUser ex_hash ex_sign users1 ex_userData (Str ''B'') = (users2, Inr (u2, tok2))
       \<and> rows users2 = rows ex_users @ [u1, u2]
       \<and> field u2 ''tenantId'' = Str ''B'')"
proof -
  have h: "truthy (Str ''A'')" "truthy (Str ''B'')" "Str ''A'' \<noteq> Str ''B''"
    "''tenantId'' \<in> set (model_fields ex_users)"
    "field ex_userData ''email'' = Str ''c@x.com''"
    "field ex_userData ''password'' = Str ''Secret1!''"
    "\<forall>r \<in> set (rows ex_users).
       field r ''email'' = Str ''c@x.com'' \<longrightarrow>
       field r ''tenantId'' \<noteq> Str ''A'' \<and> field r ''tenantId'' \<noteq> Str ''B''"
    by (simp_all add: ex_users_def ex_userData_def field_def)
  have e: "registerUser ex_hash ex_sign ex_users ex_userData (Str ''A'')
     = (ex_users\<lparr> rows := rows ex_users @
            [[(''id'', Str ''u-new''), (''isActive'', Bool True), (''email'', Str ''c@x.com''),
              (''password'', Str ''#Secret1!''), (''name'', Str ''C''), (''role'', Str ''USER''),
              (''tenantId'', Str ''A'')]] \<rparr>,
        Inr ([(''id'', Str ''u-new''), (''isActive'', Bool True), (''email'', Str ''c@x.com''),
              (''password'', Str ''#Secret1!''), (''name'', Str ''C''), (''role'', Str ''USER''),
              (''tenantId'', Str ''A'')], ''jwt''))"
    by (simp add: registerUser_def findByEmail_def bcrypt_hash_def create_def prisma_create_def
        spread_def ex_hash_def ex_sign_def ex_userData_def ex_users_def repo_defs Let_def)
  from registerUser_unique_per_tenant [OF h, of ex_hash ex_sign]
  have "\<exists>users1 u1 tok1 users2 u2 tok2.
         registerUser ex_hash ex_sign ex_users ex_userData (Str ''A'') = (users1, Inr (u1, tok1))
       \<and> registerUser ex_hash ex_sign users1 ex_userData (Str ''A'')
           = (users1, Inl (ConflictError ''Email already registered in this organization''))
       \<and> registerUser ex_hash ex_sign users1 ex_userData (Str ''B'') = (users2, Inr (u2, tok2))
       \<and> rows users2 = rows ex_users @ [u1, u2]
       \<and> field u2 ''tenantId'' = Str ''B''"
    by (elim exE conjE) (intro exI conjI, assumption+, simp, assumption)
  with e show ?thesis by blast
qed

section \<open>Password reset\<close>

lemma update_first_absent:
  "\<forall>r \<in> set rs. field r ''id'' \<noteq> i \<Longrightarrow> update_first i d rs = rs"
  by (induction rs) auto

lemma update_first_present:
  "\<exists>r \<in> set rs. field r ''id'' = i \<Longrightarrow>
     \<exists>j < length rs. field (rs ! j) ''id'' = i \<and> update_first i d rs = rs[j := spread (rs ! j) d]"
proof (induction rs)
  case Nil
  then show ?case by simp
next
  case (Cons r rs)
  show ?case
  proof (cases "field r ''id'' = i")
    case True
    then have "field ((r # rs) ! 0) ''id'' = i
        \<and> update_first i d (r # rs) = (r # rs)[0 := spread ((r # rs) ! 0) d]"
      by simp
    then show ?thesis by blast
  next
    case False
    with Cons.prems have "\<exists>r \<in> set rs. field r ''id'' = i" by auto
    from Cons.IH[OF this] obtain j where j: "j < length rs" "field (rs ! j) ''id'' = i"
      "update_first i d rs = rs[j := spread (rs ! j) d]" by blast
    with False have "Suc j < length (r # rs) \<and> field ((r # rs) ! Suc j) ''id'' = i
        \<and> update_first i d (r # rs) = (r # rs)[Suc j := spread ((r # rs) ! Suc j) d]"
      by simp
    then show ?thesis by blast
  qed
qed

lemma resetPassword_eq:
  assumes "jwt_verify tok = Inr decoded"
    and "field decoded ''purpose'' = Str ''password-reset''"
  shows "resetPassword jwt_verify hash users tok (Str pw)
           = (if field decoded ''userId'' \<noteq> Undefined
                 \<and> (\<exists>r \<in> set (rows users). field r ''id'' = field decoded ''userId'')
              then (users\<lparr> rows := update_first (field decoded ''userId'')
                                      [(''password'', Str (hash pw))] (rows users) \<rparr>, Inr True)
              else (users, Inl (ValidationError ''Invalid or expired reset token'')))"
proof -
  let ?uid = "field decoded ''userId''"
  let ?bad = "(users, Inl (ValidationError ''Invalid or expired reset token''))"
  have v: "verifyToken jwt_verify tok = Inr decoded"
    by (simp add: verifyToken_def assms(1))
  have p: "strict_equal (field decoded ''purpose'') (Str ''password-reset'')"
    by (simp add: strict_equal_Str assms(2))
  have b: "bcrypt_hash hash (Str pw) = Inr (Str (hash pw))"
    by (simp add: bcrypt_hash_def)
  have r: "resetPassword jwt_verify hash users tok (Str pw)
             = (case prisma_update users ?uid [(''password'', Str (hash pw))] of
                  (users', Inl e) \<Rightarrow> (users', Inl (ValidationError ''Invalid or expired reset token''))
                | (users', Inr usr) \<Rightarrow> (users', Inr True))"
    unfolding resetPassword_def updatePassword_def
    by (simp only: v p b sum.case not_True_eq_False if_False)
       (simp split: prod.splits sum.splits)
  show ?thesis
  proof (cases "?uid = Undefined")
    case True
    then have "prisma_update users ?uid [(''password'', Str (hash pw))]
                 = (users, Inl (PrismaClientValidationError ''Argument where needs id''))"
      by (simp add: prisma_update_def)
    with True show ?thesis by (simp add: r)
  next
    case False
    show ?thesis
    proof (cases "find (\<lambda>r. field r ''id'' = ?uid) (rows users)")
      case None
      then have n: "\<not> (\<exists>r \<in> set (rows users). field r ''id'' = ?uid)"
        by (auto simp: find_None_iff)
      from None False
      have "prisma_update users ?uid [(''password'', Str (hash pw))]
              = (users, Inl (PrismaClientKnownRequestError ''P2025''))"
        by (simp add: prisma_update_def)
      with n show ?thesis by (simp add: r)
    next
      case (Some a)
      then have "a \<in> set (rows users) \<and> field a ''id'' = ?uid"
        by (auto simp: find_Some_iff)
      then have e: "\<exists>r \<in> set (rows users). field r ''id'' = ?uid"
        by blast
      from Some False
      have "prisma_update users ?uid [(''password'', Str (hash pw))]
              = (users\<lparr> rows := update_first ?uid [(''password'', Str (hash pw))] (rows users) \<rparr>,
                 Inr (spread a [(''password'', Str (hash pw))]))"
        by (simp add: prisma_update_def)
      with e False show ?thesis by (simp add: r)
    qed
  qed
qed

text \<open>
  Claim C10. For a reset token that verifies and whose payload has the purpose
  \<open>password-reset\<close>, and a new password: the call succeeds exactly when a user has the
  payload's user id, whatever the tenant of that user; then one row with that id gets
  the digest as its password and the table is otherwise the same; otherwise the call
  fails with \<^verbatim>\<open>ValidationError\<close> and the table is as before. In both cases the rows with
  another id and every column but \<open>password\<close> are unchanged, and the handler gives the
  same result whatever tenant context the request carries.
\<close>

theorem resetPassword_only_password:
  assumes "jwt_verify tok = Inr decoded"
    and "field decoded ''purpose'' = Str ''password-reset''"
  shows "\<exists>users' res.
           resetPassword jwt_verify hash users tok (Str pw) = (users', res)
         \<and> (res = Inr True \<longleftrightarrow>
              field decoded ''userId'' \<noteq> Undefined
              \<and> (\<exists>r \<in> set (rows users). field r ''id'' = field decoded ''userId''))
         \<and> (res = Inr True \<longrightarrow>
              (\<exists>j < length (rows users).
                 field (rows users ! j) ''id'' = field decoded ''userId''
                 \<and> rows users'
                     = (rows users)[j := AList.update ''password'' (Str (hash pw))
                                           (rows users ! j)]))
         \<and> (res \<noteq> Inr True \<longrightarrow>
              res = Inl (ValidationError ''Invalid or expired reset token'') \<and> users' = users)
         \<and> length (rows users') = length (rows users)
         \<and> (\<forall>j < length (rows users).
              field (rows users ! j) ''id'' \<noteq> field decoded ''userId''
              \<longrightarrow> rows users' ! j = rows users ! j)
         \<and> (\<forall>j < length (rows users). \<forall>k. k \<noteq> ''password''
              \<longrightarrow> field (rows users' ! j) k = field (rows users ! j) k)
         \<and> (\<forall>tn t b req.
              resetPassword_handler jwt_verify hash users
                  (req\<lparr> req_tenant := tn, req_tenantId := t, req_isMainDomain := b \<rparr>)
                = resetPassword_handler jwt_verify hash users req)"
proof -
  let ?uid = "field decoded ''userId''"
  let ?d = "[(''password'', Str (hash pw))]"
  note eq = resetPassword_eq[of jwt_verify tok decoded hash users pw, OF assms]
  have handler: "\<forall>tn t b req.
              resetPassword_handler jwt_verify hash users
                  (req\<lparr> req_tenant := tn, req_tenantId := t, req_isMainDomain := b \<rparr>)
                = resetPassword_handler jwt_verify hash users req"
    by (simp add: resetPassword_handler_def)
  show ?thesis
  proof (cases "?uid \<noteq> Undefined \<and> (\<exists>r \<in> set (rows users). field r ''id'' = ?uid)")
    case True
    then obtain j where j: "j < length (rows users)" "field (rows users ! j) ''id'' = ?uid"
      "update_first ?uid ?d (rows users) = (rows users)[j := spread (rows users ! j) ?d]"
      using update_first_present[of "rows users" ?uid ?d] by blast
    let ?users' = "users\<lparr> rows := (rows users)[j := AList.update ''password'' (Str (hash pw))
                                           (rows users ! j)] \<rparr>"
    have r: "resetPassword jwt_verify hash users tok (Str pw) = (?users', Inr True)"
      using True eq j(3) by (simp add: spread_single)
    have frame1: "\<forall>j' < length (rows users).
              field (rows users ! j') ''id'' \<noteq> ?uid \<longrightarrow> rows ?users' ! j' = rows users ! j'"
      using j by (auto simp: nth_list_update)
    have frame2: "\<forall>j' < length (rows users). \<forall>k. k \<noteq> ''password''
              \<longrightarrow> field (rows ?users' ! j') k = field (rows users ! j') k"
      using j by (auto simp: nth_list_update field_update)
    have one: "\<exists>j < length (rows users).
                 field (rows users ! j) ''id'' = ?uid
                 \<and> rows ?users' = (rows users)[j := AList.update ''password'' (Str (hash pw))
                                           (rows users ! j)]"
      using j by auto
    show ?thesis
      using True r frame1 frame2 one handler
      by (intro exI[of _ ?users'] exI[of _ "Inr True"]) simp
  next
    case False
    then have r: "resetPassword jwt_verify hash users tok (Str pw)
                    = (users, Inl (ValidationError ''Invalid or expired reset token''))"
      using eq by simp
    show ?thesis
      using False r handler
      by (intro exI[of _ users] exI[of _ "Inl (ValidationError ''Invalid or expired reset token'')"])
         simp
  qed
qed

theorem resetPassword_only_password_witness:
  "resetPassword ex_verify ex_hash ex_users ''reset-u1'' (Str ''Secret1!'')
     = (ex_users\<lparr> rows :=
          [ [(''id'', Str ''u1''), (''email'', Str ''a@x.com''), (''password'', Str ''#Secret1!''),
             (''role'', Str ''USER''), (''tenantId'', Str ''A''), (''isActive'', Bool True)],
            [(''id'', Str ''u2''), (''email'', Str ''b@x.com''), (''password'', Str ''h2''),
             (''role'', Str ''USER''), (''tenantId'', Str ''A''), (''isActive'', Bool True)],
            [(''id'', Str ''u9''), (''email'', Str ''a@x.com''), (''password'', Str ''h9''),
             (''role'', Str ''USER''), (''tenantId'', Str ''B''), (''isActive'', Bool True)] ] \<rparr>,
        Inr True)
   \<and> resetPassword_handler ex_verify ex_hash ex_users
        (ex_request\<lparr> req_tenant := None, req_tenantId := Str ''B'', req_isMainDomain := Bool False \<rparr>)
     = resetPassword_handler ex_verify ex_hash ex_users ex_request"
proof -
  have h: "ex_verify ''reset-u1'' = Inr [(''userId'', Str ''u1''), (''purpose'', Str ''password-reset'')]"
    "field [(''userId'', Str ''u1''), (''purpose'', Str ''password-reset'')] ''purpose''
       = Str ''password-reset''"
    by (simp_all add: ex_verify_def field_def)
  have e: "resetPassword ex_verify ex_hash ex_users ''reset-u1'' (Str ''Secret1!'')
     = (ex_users\<lparr> rows :=
          [ [(''id'', Str ''u1''), (''email'', Str ''a@x.com''), (''password'', Str ''#Secret1!''),
             (''role'', Str ''USER''), (''tenantId'', Str ''A''), (''isActive'', Bool True)],
            [(''id'', Str ''u2''), (''email'', Str ''b@x.com''), (''password'', Str ''h2''),
             (''role'', Str ''USER''), (''tenantId'', Str ''A''), (''isActive'', Bool True)],
            [(''id'', Str ''u9''), (''email'', Str ''a@x.com''), (''password'', Str ''h9''),
             (''role'', Str ''USER''), (''tenantId'', Str ''B''), (''isActive'', Bool True)] ] \<rparr>,
        Inr True)"
    by (simp add: resetPassword_def verifyToken_def strict_equal_def bcrypt_hash_def
        updatePassword_def prisma_update_def spread_def ex_verify_def ex_hash_def ex_users_def
        field_def)
  from resetPassword_only_password
         [of ex_verify "''reset-u1''"
             "[(''userId'', Str ''u1''), (''purpose'', Str ''password-reset'')]"
             ex_hash ex_users "''Secret1!''", OF h]
  have "resetPassword_handler ex_verify ex_hash ex_users
        (ex_request\<lparr> req_tenant := None, req_tenantId := Str ''B'', req_isMainDomain := Bool False \<rparr>)
     = resetPassword_handler ex_verify ex_hash ex_users ex_request"
    by blast
  with e show ?thesis by simp
qed

end
